theory Spec2Isabelle
  imports Complex_Main "HOL-Library.Word"
begin

section \<open>Python values\<close>

text \<open>
  The program is a FastAPI application (\<^verbatim>\<open>main.py\<close>). Its handlers walk over
  decoded JSON with Python's dynamically typed operations, so the values are modelled
  as a datatype and each operation lists what it does on every kind of value.

  A Python \<^verbatim>\<open>str\<close> is modelled by its UTF-8 encoding (\<^typ>\<open>string\<close>): equality and
  concatenation are those of the byte sequences, and slicing counts code points by
  skipping UTF-8 continuation bytes. A \<^verbatim>\<open>dict\<close> is an association list in insertion
  order; lookups take the first binding of a key (a decoded JSON object has each key
  once). Floats are the finite ones of standard JSON.
\<close>

type_synonym byte = "8 word"

datatype json =
    JNull
  | JBool bool
  | JInt int
  | JFloat rat
  | JStr string
  | JList "json list"
  | JObj "(string \<times> json) list"

subsection \<open>Strings\<close>

definition is_continuation :: "char \<Rightarrow> bool" where
  "is_continuation c = (128 \<le> (of_char c :: nat) \<and> (of_char c :: nat) < 192)"

text \<open>\<^verbatim>\<open>s[:n]\<close> on a string: the first \<open>n\<close> code points.\<close>

fun py_take :: "nat \<Rightarrow> string \<Rightarrow> string" where
  "py_take n [] = []"
| "py_take n (c # cs) =
     (if is_continuation c then c # py_take n cs
      else (case n of 0 \<Rightarrow> [] | Suc m \<Rightarrow> c # py_take m cs))"

fun starts_with :: "string \<Rightarrow> string \<Rightarrow> bool" where
  "starts_with [] s = True"
| "starts_with (p # ps) [] = False"
| "starts_with (p # ps) (c # cs) = (p = c \<and> starts_with ps cs)"

text \<open>\<^verbatim>\<open>p in s\<close> on two strings.\<close>

fun is_substring :: "string \<Rightarrow> string \<Rightarrow> bool" where
  "is_substring p [] = (p = [])"
| "is_substring p (c # cs) = (starts_with p (c # cs) \<or> is_substring p cs)"

definition digit_char :: "nat \<Rightarrow> char" where
  "digit_char d = ''0123456789'' ! (d mod 10)"

text \<open>\<^verbatim>\<open>str(n)\<close> for an integer.\<close>

fun str_of_nat :: "nat \<Rightarrow> string" where
  "str_of_nat n =
     (if n < 10 then [digit_char n] else str_of_nat (n div 10) @ [digit_char (n mod 10)])"

declare str_of_nat.simps [simp del]

definition str_of_int :: "int \<Rightarrow> string" where
  "str_of_int i = (if i < 0 then CHR ''-'' # str_of_nat (nat (- i)) else str_of_nat (nat i))"

text \<open>Interpolating a configuration variable: \<^verbatim>\<open>None\<close> prints as \<^verbatim>\<open>None\<close>.\<close>

definition str_of_env :: "string option \<Rightarrow> string" where
  "str_of_env v = (case v of None \<Rightarrow> ''None'' | Some s \<Rightarrow> s)"

text \<open>Truthiness of a configuration variable (\<^verbatim>\<open>bool(v)\<close>, \<^verbatim>\<open>not v\<close>).\<close>

definition env_set :: "string option \<Rightarrow> bool" where
  "env_set v = (case v of None \<Rightarrow> False | Some s \<Rightarrow> s \<noteq> [])"

subsection \<open>\<^verbatim>\<open>base64.b64encode\<close>\<close>

definition b64_alphabet :: string where
  "b64_alphabet = ''ABCDEFGHIJKLMNOPQRSTUVWXYZabcdefghijklmnopqrstuvwxyz0123456789+/''"

definition b64_char :: "nat \<Rightarrow> char" where
  "b64_char n = b64_alphabet ! (n mod 64)"

fun b64encode :: "byte list \<Rightarrow> string" where
  "b64encode [] = []"
| "b64encode [a] =
     (let n = unat a * 65536
      in [b64_char (n div 262144), b64_char (n div 4096), CHR ''='', CHR ''=''])"
| "b64encode [a, b] =
     (let n = unat a * 65536 + unat b * 256
      in [b64_char (n div 262144), b64_char (n div 4096), b64_char (n div 64), CHR ''=''])"
| "b64encode (a # b # c # rest) =
     (let n = unat a * 65536 + unat b * 256 + unat c
      in [b64_char (n div 262144), b64_char (n div 4096), b64_char (n div 64), b64_char n]
         @ b64encode rest)"

subsection \<open>Responses and exceptions\<close>

text \<open>
  What the program reads from an \<^verbatim>\<open>httpx.Response\<close>: \<^verbatim>\<open>status_code\<close>, \<^verbatim>\<open>text\<close>,
  \<^verbatim>\<open>content\<close>, and \<^verbatim>\<open>json()\<close>, which raises when the body is not JSON
  (\<open>None\<close> here).
\<close>

record http_response =
  resp_status_code :: nat
  resp_text :: string
  resp_content :: "byte list"
  resp_json :: "json option"

text \<open>
  The exceptions of the program, all subclasses of \<^verbatim>\<open>Exception\<close>. A JSON decoding
  error is a \<^verbatim>\<open>ValueError\<close>; \<open>OtherException\<close> stands for any other class, such
  as the transport errors of the HTTP client. Task cancellation and interpreter exit
  are not modelled.
\<close>

datatype exc =
    KeyError json
  | IndexError
  | TypeError
  | AttributeError
  | ValueError string
  | HTTPStatusError http_response
  | HTTPException nat string
  | OtherException string

subsection \<open>Operations on values\<close>

text \<open>\<^verbatim>\<open>k in x\<close> for a string \<open>k\<close>.\<close>

definition py_contains :: "string \<Rightarrow> json \<Rightarrow> exc + bool" where
  "py_contains k x =
     (case x of
        JObj kvs \<Rightarrow> Inr (map_of kvs k \<noteq> None)
      | JList xs \<Rightarrow> Inr (JStr k \<in> set xs)
      | JStr s \<Rightarrow> Inr (is_substring k s)
      | _ \<Rightarrow> Inl TypeError)"

text \<open>\<^verbatim>\<open>x[k]\<close> for a string \<open>k\<close>.\<close>

definition py_getitem :: "json \<Rightarrow> string \<Rightarrow> exc + json" where
  "py_getitem x k =
     (case x of
        JObj kvs \<Rightarrow> (case map_of kvs k of None \<Rightarrow> Inl (KeyError (JStr k)) | Some v \<Rightarrow> Inr v)
      | _ \<Rightarrow> Inl TypeError)"

text \<open>\<^verbatim>\<open>x[0]\<close>.\<close>

definition py_first :: "json \<Rightarrow> exc + json" where
  "py_first x =
     (case x of
        JList xs \<Rightarrow> (case xs of [] \<Rightarrow> Inl IndexError | v # _ \<Rightarrow> Inr v)
      | JStr s \<Rightarrow> (if s = [] then Inl IndexError else Inr (JStr (py_take 1 s)))
      | JObj kvs \<Rightarrow> Inl (KeyError (JInt 0))
      | _ \<Rightarrow> Inl TypeError)"

text \<open>\<^verbatim>\<open>x.keys()\<close>.\<close>

definition py_keys :: "json \<Rightarrow> exc + string list" where
  "py_keys x = (case x of JObj kvs \<Rightarrow> Inr (map fst kvs) | _ \<Rightarrow> Inl AttributeError)"

text \<open>\<^verbatim>\<open>x.get(k, d)\<close>; \<^verbatim>\<open>x.get(k)\<close> is \<open>py_get x k JNull\<close>.\<close>

definition py_get :: "json \<Rightarrow> string \<Rightarrow> json \<Rightarrow> exc + json" where
  "py_get x k d =
     (case x of
        JObj kvs \<Rightarrow> Inr (case map_of kvs k of None \<Rightarrow> d | Some v \<Rightarrow> v)
      | _ \<Rightarrow> Inl AttributeError)"

text \<open>
  \<^verbatim>\<open>x[:n]\<close>. On a \<^verbatim>\<open>dict\<close> the slice raises \<^verbatim>\<open>TypeError\<close> (unhashable) up to
  Python 3.11 and \<^verbatim>\<open>KeyError\<close> from 3.12; the program treats both alike.
\<close>

definition py_slice :: "json \<Rightarrow> nat \<Rightarrow> exc + json" where
  "py_slice x n =
     (case x of
        JStr s \<Rightarrow> Inr (JStr (py_take n s))
      | JList xs \<Rightarrow> Inr (JList (take n xs))
      | _ \<Rightarrow> Inl TypeError)"

text \<open>\<^verbatim>\<open>bool(x)\<close>.\<close>

definition truthy :: "json \<Rightarrow> bool" where
  "truthy x =
     (case x of
        JNull \<Rightarrow> False
      | JBool b \<Rightarrow> b
      | JInt i \<Rightarrow> i \<noteq> 0
      | JFloat f \<Rightarrow> f \<noteq> 0
      | JStr s \<Rightarrow> s \<noteq> []
      | JList xs \<Rightarrow> xs \<noteq> []
      | JObj kvs \<Rightarrow> kvs \<noteq> [])"

section \<open>Effects\<close>

text \<open>
  The program's effects are outbound HTTP requests and log lines. A run threads a
  trace of events. Each outbound request is tagged with the place that issues it; a
  log line is identified by its level and the source line of the logging call (the
  interpolated text is not kept); and each of the four helper coroutines records an
  \<open>Invoke\<close> event when it is entered, so that calls can be counted even when a helper
  returns before any request.
\<close>

text \<open>
  A request as the program builds it: \<open>req_json\<close> is the \<^verbatim>\<open>json=\<close> argument and
  \<open>req_timeout\<close> the timeout in seconds of the client, where the program sets one.
\<close>

datatype http_method = GET | POST

record http_request =
  req_method :: http_method
  req_url :: string
  req_headers :: "(string \<times> string) list"
  req_json :: "json option"
  req_timeout :: "nat option"

datatype call_site = MediaResolution | MediaDownload | InferenceImage | InferenceText | Send

datatype operation =
    Download_media json
  | Analyze_image "byte list"
  | Answer_question json
  | Send_message json json

datatype level = INFO | WARNING | ERROR

datatype event =
    Invoke operation
  | Http call_site http_request
  | Log level nat

text \<open>
  Everything outside the program: how the remote ends answer a request (a response,
  or an exception of the client), given the events so far; and the texts Python
  produces for \<^verbatim>\<open>str(x)\<close> of a float, list or dict and for \<^verbatim>\<open>str(e)\<close> of an
  exception.
\<close>

record runtime =
  respond :: "event list \<Rightarrow> call_site \<Rightarrow> http_request \<Rightarrow> exc + http_response"
  repr_value :: "json \<Rightarrow> string"
  str_exc :: "exc \<Rightarrow> string"

text \<open>The module-level configuration, read from the environment at import.\<close>

record config =
  WHATSAPP_TOKEN :: "string option"
  PHONE_NUMBER_ID :: "string option"
  VERIFY_TOKEN :: string
  GEMINI_API_KEY :: "string option"

type_synonym 'a io = "event list \<Rightarrow> (exc + 'a) \<times> event list"

definition io_pure :: "'a \<Rightarrow> 'a io" where
  "io_pure x t = (Inr x, t)"

definition io_raise :: "exc \<Rightarrow> 'a io" where
  "io_raise e t = (Inl e, t)"

definition io_lift :: "exc + 'a \<Rightarrow> 'a io" where
  "io_lift r t = (r, t)"

definition io_bind :: "'a io \<Rightarrow> ('a \<Rightarrow> 'b io) \<Rightarrow> 'b io" where
  "io_bind m f t = (case m t of (Inl e, t') \<Rightarrow> (Inl e, t') | (Inr x, t') \<Rightarrow> f x t')"

definition io_seq :: "'a io \<Rightarrow> 'b io \<Rightarrow> 'b io" where
  "io_seq m n = io_bind m (\<lambda>_. n)"

text \<open>\<^verbatim>\<open>try: m  except Exception as e: h e\<close>.\<close>

definition try_except :: "'a io \<Rightarrow> (exc \<Rightarrow> 'a io) \<Rightarrow> 'a io" where
  "try_except m h t = (case m t of (Inl e, t') \<Rightarrow> h e t' | (Inr x, t') \<Rightarrow> (Inr x, t'))"

definition log :: "level \<Rightarrow> nat \<Rightarrow> unit io" where
  "log lv line t = (Inr (), t @ [Log lv line])"

definition invoke :: "operation \<Rightarrow> unit io" where
  "invoke op t = (Inr (), t @ [Invoke op])"

definition http_call :: "runtime \<Rightarrow> call_site \<Rightarrow> http_request \<Rightarrow> http_response io" where
  "http_call rt site req t = (respond rt t site req, t @ [Http site req])"

text \<open>
  \<^verbatim>\<open>Response.raise_for_status()\<close> of httpx: an \<^verbatim>\<open>HTTPStatusError\<close> carrying the
  response unless the status is 2xx.
\<close>

definition raise_for_status :: "http_response \<Rightarrow> unit io" where
  "raise_for_status resp =
     (if 200 \<le> resp_status_code resp \<and> resp_status_code resp < 300 then io_pure ()
      else io_raise (HTTPStatusError resp))"

text \<open>\<^verbatim>\<open>resp.json()\<close>.\<close>

definition response_json :: "http_response \<Rightarrow> exc + json" where
  "response_json resp =
     (case resp_json resp of None \<Rightarrow> Inl (ValueError ''JSONDecodeError'') | Some j \<Rightarrow> Inr j)"

text \<open>\<^verbatim>\<open>str(x)\<close>, as an f-string interpolates a value.\<close>

definition py_str :: "runtime \<Rightarrow> json \<Rightarrow> string" where
  "py_str rt x =
     (case x of
        JStr s \<Rightarrow> s
      | JNull \<Rightarrow> ''None''
      | JBool b \<Rightarrow> (if b then ''True'' else ''False'')
      | JInt i \<Rightarrow> str_of_int i
      | _ \<Rightarrow> repr_value rt x)"

subsection \<open>Projections of a trace\<close>

fun invocations :: "event list \<Rightarrow> operation list" where
  "invocations [] = []"
| "invocations (Invoke op # es) = op # invocations es"
| "invocations (_ # es) = invocations es"

fun requests :: "event list \<Rightarrow> (call_site \<times> http_request) list" where
  "requests [] = []"
| "requests (Http site req # es) = (site, req) # requests es"
| "requests (_ # es) = requests es"

fun log_lines :: "event list \<Rightarrow> (level \<times> nat) list" where
  "log_lines [] = []"
| "log_lines (Log lv line # es) = (lv, line) # log_lines es"
| "log_lines (_ # es) = log_lines es"

section \<open>The program\<close>

subsection \<open>Text constants\<close>

definition check_mark :: string where
  "check_mark = [CHR 0xE2, CHR 0x9C, CHR 0x85]"

definition hourglass :: string where
  "hourglass = [CHR 0xE2, CHR 0x8F, CHR 0xB3]"

definition warning_sign :: string where
  "warning_sign = [CHR 0xE2, CHR 0x9A, CHR 0xA0, CHR 0xEF, CHR 0xB8, CHR 0x8F]"

definition robot_face :: string where
  "robot_face = [CHR 0xF0, CHR 0x9F, CHR 0xA4, CHR 0x96]"

definition framed_picture :: string where
  "framed_picture = [CHR 0xF0, CHR 0x9F, CHR 0x96, CHR 0xBC, CHR 0xEF, CHR 0xB8, CHR 0x8F]"

definition memo :: string where
  "memo = [CHR 0xF0, CHR 0x9F, CHR 0x93, CHR 0x9D]"

definition newline :: string where
  "newline = [CHR 0x0A]"

definition image_unconfigured :: string where
  "image_unconfigured =
     check_mark @ '' Image received! (Connect your AI model here to analyze it.)''"

definition image_busy :: string where
  "image_busy =
     check_mark @ '' Image received! (AI is temporarily busy - please try again in a moment)''"

definition image_unavailable :: "nat \<Rightarrow> string" where
  "image_unavailable code =
     check_mark @ '' Image received! (Analysis temporarily unavailable: ''
       @ str_of_nat code @ '')''"

definition image_error :: string where
  "image_error = check_mark @ '' Image received! (Analysis encountered an error)''"

definition text_unconfigured :: string where
  "text_unconfigured = robot_face @ '' AI is not configured. Please set up GEMINI_API_KEY.''"

definition text_busy :: string where
  "text_busy = hourglass @ '' I'm a bit busy right now. Please try again in a moment!''"

definition text_unavailable :: string where
  "text_unavailable = warning_sign @ '' Sorry, I encountered an error. Please try again later.''"

definition text_error :: string where
  "text_error = warning_sign @ '' Sorry, something went wrong. Please try again.''"

definition image_reply :: "string \<Rightarrow> string" where
  "image_reply analysis = framed_picture @ '' *Image Analysis*'' @ newline @ newline @ analysis"

definition caption_prefix :: "string \<Rightarrow> string" where
  "caption_prefix caption = memo @ '' Caption: _'' @ caption @ ''_'' @ newline @ newline"

definition image_apology :: "string \<Rightarrow> string" where
  "image_apology err =
     warning_sign @ '' Sorry, I encountered an error processing your image: '' @ err"

definition text_apology :: string where
  "text_apology =
     warning_sign @ '' Sorry, I couldn't process your question. Please try again!''"

definition unsupported_reply :: string where
  "unsupported_reply = warning_sign @ '' Sorry, I only support image messages right now.''"

subsection \<open>Configuration\<close>

definition WHATSAPP_API_URL :: "config \<Rightarrow> string" where
  "WHATSAPP_API_URL cfg =
     ''https://graph.facebook.com/v18.0/'' @ str_of_env (PHONE_NUMBER_ID cfg) @ ''/messages''"

fun join :: "string \<Rightarrow> string list \<Rightarrow> string" where
  "join sep [] = []"
| "join sep [x] = x"
| "join sep (x # y # ys) = x @ sep @ join sep (y # ys)"

definition missing_env_vars :: "config \<Rightarrow> string list" where
  "missing_env_vars cfg =
     (if env_set (WHATSAPP_TOKEN cfg) then [] else [''WHATSAPP_TOKEN''])
     @ (if env_set (PHONE_NUMBER_ID cfg) then [] else [''PHONE_NUMBER_ID''])"

fun log_each :: "level \<Rightarrow> nat \<Rightarrow> 'a list \<Rightarrow> unit io" where
  "log_each lv line [] = io_pure ()"
| "log_each lv line (x # xs) = io_seq (log lv line) (log_each lv line xs)"

text \<open>Runs once when the module is imported; the application only starts if it returns.\<close>

definition validate_env_vars :: "config \<Rightarrow> unit io" where
  "validate_env_vars cfg =
     (let missing = missing_env_vars cfg in
      io_seq (if env_set (GEMINI_API_KEY cfg) then io_pure () else log WARNING 55)
     (if missing \<noteq> [] then
        io_seq (log ERROR 58) (io_seq (log ERROR 59) (io_seq (log_each ERROR 61 missing)
          (io_raise (ValueError (''Missing environment variables: '' @ join '', '' missing)))))
      else
        io_seq (log INFO 64) (io_seq (log INFO 65) (io_seq (log INFO 66) (log INFO 67)))))"

subsection \<open>Helpers\<close>

definition auth_headers :: "config \<Rightarrow> (string \<times> string) list" where
  "auth_headers cfg = [(''Authorization'', ''Bearer '' @ str_of_env (WHATSAPP_TOKEN cfg))]"

definition media_info_request :: "runtime \<Rightarrow> config \<Rightarrow> json \<Rightarrow> http_request" where
  "media_info_request rt cfg media_id =
     \<lparr>req_method = GET,
      req_url = ''https://graph.facebook.com/v18.0/'' @ py_str rt media_id,
      req_headers = auth_headers cfg,
      req_json = None,
      req_timeout = None\<rparr>"

definition media_download_request :: "config \<Rightarrow> string \<Rightarrow> http_request" where
  "media_download_request cfg media_url =
     \<lparr>req_method = GET,
      req_url = media_url,
      req_headers = auth_headers cfg,
      req_json = None,
      req_timeout = None\<rparr>"

text \<open>
  \<^verbatim>\<open>client.get(url, ...)\<close> with a value read from JSON: httpx rejects a URL that is
  not a string with \<^verbatim>\<open>TypeError\<close> before anything is sent.
\<close>

definition download_whatsapp_media :: "runtime \<Rightarrow> config \<Rightarrow> json \<Rightarrow> byte list io" where
  "download_whatsapp_media rt cfg media_id =
     io_seq (invoke (Download_media media_id))
    (io_bind (http_call rt MediaResolution (media_info_request rt cfg media_id)) (\<lambda>meta_resp.
     io_seq (raise_for_status meta_resp)
    (io_bind (io_lift (response_json meta_resp)) (\<lambda>meta.
     io_bind (io_lift (py_get meta ''url'' JNull)) (\<lambda>media_url.
     io_bind (case media_url of
                JStr u \<Rightarrow> http_call rt MediaDownload (media_download_request cfg u)
              | _ \<Rightarrow> io_raise TypeError) (\<lambda>img_resp.
     io_seq (raise_for_status img_resp)
    (io_pure (resp_content img_resp))))))))"

definition result_bind :: "exc + 'a \<Rightarrow> ('a \<Rightarrow> exc + 'b) \<Rightarrow> exc + 'b" where
  "result_bind r f = (case r of Inl e \<Rightarrow> Inl e | Inr x \<Rightarrow> f x)"

text \<open>\<^verbatim>\<open>result["candidates"][0]["content"]["parts"][0]["text"]\<close>.\<close>

definition candidate_text :: "json \<Rightarrow> exc + json" where
  "candidate_text result =
     result_bind (py_getitem result ''candidates'') (\<lambda>candidates.
     result_bind (py_first candidates) (\<lambda>candidate.
     result_bind (py_getitem candidate ''content'') (\<lambda>content.
     result_bind (py_getitem content ''parts'') (\<lambda>parts.
     result_bind (py_first parts) (\<lambda>part.
     py_getitem part ''text'')))))"

definition vision_request :: "config \<Rightarrow> byte list \<Rightarrow> http_request" where
  "vision_request cfg image_bytes =
     \<lparr>req_method = POST,
      req_url = ''https://generativelanguage.googleapis.com/v1beta/models/gemini-2.5-flash:generateContent?key=''
                  @ str_of_env (GEMINI_API_KEY cfg),
      req_headers = [(''Content-Type'', ''application/json'')],
      req_json = Some (JObj [(''contents'', JList [JObj [(''parts'', JList
        [JObj [(''text'', JStr ''Describe what you see in this image in 2-3 sentences.'')],
         JObj [(''inline_data'', JObj [(''mime_type'', JStr ''image/jpeg''),
                                       (''data'', JStr (b64encode image_bytes))])]])]])]),
      req_timeout = Some 30\<rparr>"

definition analyze_image :: "runtime \<Rightarrow> config \<Rightarrow> byte list \<Rightarrow> json io" where
  "analyze_image rt cfg image_bytes =
     io_seq (invoke (Analyze_image image_bytes))
    (if \<not> env_set (GEMINI_API_KEY cfg) then io_pure (JStr image_unconfigured)
     else
       try_except
         (io_bind (http_call rt InferenceImage (vision_request cfg image_bytes)) (\<lambda>response.
          if resp_status_code response = 429 then
            io_seq (log WARNING 131) (io_pure (JStr image_busy))
          else
            io_seq (raise_for_status response)
           (io_bind (io_lift (response_json response)) (\<lambda>result.
            io_lift (candidate_text result)))))
         (\<lambda>e. case e of
            HTTPStatusError r \<Rightarrow>
              io_seq (log ERROR 142)
             (if resp_status_code r = 429 then io_pure (JStr image_busy)
              else io_seq (log ERROR 145)
                     (io_pure (JStr (image_unavailable (resp_status_code r)))))
          | _ \<Rightarrow> io_seq (log ERROR 148) (io_pure (JStr image_error))))"

definition question_request :: "config \<Rightarrow> json \<Rightarrow> http_request" where
  "question_request cfg question =
     \<lparr>req_method = POST,
      req_url = ''https://generativelanguage.googleapis.com/v1/models/gemini-1.5-flash:generateContent?key=''
                  @ str_of_env (GEMINI_API_KEY cfg),
      req_headers = [(''Content-Type'', ''application/json'')],
      req_json = Some (JObj [(''contents'', JList [JObj [(''parts'', JList
        [JObj [(''text'', question)]])]])]),
      req_timeout = Some 30\<rparr>"

definition answer_question :: "runtime \<Rightarrow> config \<Rightarrow> json \<Rightarrow> json io" where
  "answer_question rt cfg question =
     io_seq (invoke (Answer_question question))
    (if \<not> env_set (GEMINI_API_KEY cfg) then io_pure (JStr text_unconfigured)
     else
       try_except
         (io_bind (http_call rt InferenceText (question_request cfg question)) (\<lambda>response.
          if resp_status_code response = 429 then
            io_seq (log WARNING 180) (io_pure (JStr text_busy))
          else
            io_seq (raise_for_status response)
           (io_bind (io_lift (response_json response)) (\<lambda>result.
            io_lift (candidate_text result)))))
         (\<lambda>e. case e of
            HTTPStatusError r \<Rightarrow>
              io_seq (log ERROR 191)
             (if resp_status_code r = 429 then io_pure (JStr text_busy)
              else io_seq (log ERROR 194) (io_pure (JStr text_unavailable)))
          | _ \<Rightarrow> io_seq (log ERROR 197) (io_pure (JStr text_error))))"

definition send_request :: "config \<Rightarrow> json \<Rightarrow> json \<Rightarrow> http_request" where
  "send_request cfg to body =
     \<lparr>req_method = POST,
      req_url = WHATSAPP_API_URL cfg,
      req_headers = auth_headers cfg @ [(''Content-Type'', ''application/json'')],
      req_json = Some (JObj [(''messaging_product'', JStr ''whatsapp''),
                             (''to'', to),
                             (''type'', JStr ''text''),
                             (''text'', JObj [(''body'', body)])]),
      req_timeout = None\<rparr>"

definition send_whatsapp_message :: "runtime \<Rightarrow> config \<Rightarrow> json \<Rightarrow> json \<Rightarrow> json io" where
  "send_whatsapp_message rt cfg to body =
     io_seq (invoke (Send_message to body))
    (io_bind (http_call rt Send (send_request cfg to body)) (\<lambda>resp.
     io_seq (if resp_status_code resp \<noteq> 200 then
               io_seq (log ERROR 219) (raise_for_status resp)
             else io_pure ())
    (io_bind (io_lift (response_json resp)) (\<lambda>sent.
     io_seq (log INFO 222)
    (io_lift (response_json resp))))))"

text \<open>
  Lines 226 to 239. The program defines this helper and calls it nowhere; it posts a
  fixed text with the same headers and payload shape as a reply and does not look at
  the response.
\<close>

definition send_whatsapp_typing :: "runtime \<Rightarrow> config \<Rightarrow> json \<Rightarrow> unit io" where
  "send_whatsapp_typing rt cfg to =
     io_seq (http_call rt Send
               (send_request cfg to (JStr (hourglass @ '' Analyzing your image, please wait...''))))
            (io_pure ())"

subsection \<open>Routes\<close>

text \<open>
  What a handler reads from the \<^verbatim>\<open>Request\<close>: the query parameters in the order of
  the URL, and the outcome of \<^verbatim>\<open>await request.json()\<close>, which raises when the body
  is not JSON.
\<close>

record request =
  query_params :: "(string \<times> string) list"
  request_json :: "exc + json"

text \<open>
  A handler returns a \<^verbatim>\<open>PlainTextResponse\<close> or a \<^verbatim>\<open>dict\<close>, which FastAPI sends as
  JSON; both have status 200. An \<^verbatim>\<open>HTTPException\<close> becomes a response with its
  status code, and any other exception leaving a handler a 500.
\<close>

datatype response = PlainTextResponse string | JSONResponse json

definition http_status :: "exc + response \<Rightarrow> nat" where
  "http_status r =
     (case r of Inr _ \<Rightarrow> 200 | Inl (HTTPException code _) \<Rightarrow> code | Inl _ \<Rightarrow> 500)"

text \<open>\<^verbatim>\<open>dict(request.query_params)\<close>: the last value of a repeated parameter.\<close>

definition params_dict :: "(string \<times> string) list \<Rightarrow> string \<Rightarrow> string option" where
  "params_dict qs = map_of (rev qs)"

definition verify_webhook :: "config \<Rightarrow> request \<Rightarrow> response io" where
  "verify_webhook cfg req =
     (let params = params_dict (query_params req);
          mode = params ''hub.mode'';
          token = params ''hub.verify_token'';
          challenge = params ''hub.challenge''
      in io_seq (log INFO 255)
        (if mode = Some ''subscribe'' \<and> token = Some (VERIFY_TOKEN cfg) then
           io_seq (log INFO 258)
             (io_pure (PlainTextResponse (case challenge of None \<Rightarrow> [] | Some c \<Rightarrow> c)))
         else
           io_seq (log ERROR 261) (io_raise (HTTPException 403 ''Verification failed''))))"

definition status_response :: "string \<Rightarrow> response" where
  "status_response s = JSONResponse (JObj [(''status'', JStr s)])"

text \<open>
  Lines 322 to 326: the \<^verbatim>\<open>except httpx.HTTPStatusError\<close> clause around the reply to
  an image. Any other exception passes through.
\<close>

definition reply_except :: "exc \<Rightarrow> unit io" where
  "reply_except e =
     (case e of
        HTTPStatusError r \<Rightarrow>
          io_seq (log ERROR 323)
         (if is_substring ''131030'' (resp_text r) then log ERROR 326 else io_pure ())
      | _ \<Rightarrow> io_raise e)"

text \<open>
  Lines 328 to 337: the \<^verbatim>\<open>except Exception\<close> clause of the image branch, with its
  own \<^verbatim>\<open>try\<close> and bare \<^verbatim>\<open>except\<close> around the apology.
\<close>

definition image_except :: "runtime \<Rightarrow> config \<Rightarrow> json \<Rightarrow> exc \<Rightarrow> unit io" where
  "image_except rt cfg from_number e =
     io_seq (log ERROR 329)
    (try_except
       (io_seq (send_whatsapp_message rt cfg from_number
                  (JStr (image_apology (str_exc rt e))))
               (io_pure ()))
       (\<lambda>_. log ERROR 336))"

text \<open>Lines 300 to 337: an image message.\<close>

definition handle_image :: "runtime \<Rightarrow> config \<Rightarrow> json \<Rightarrow> json \<Rightarrow> unit io" where
  "handle_image rt cfg message from_number =
     io_bind (io_lift (py_getitem message ''image'')) (\<lambda>image.
     io_bind (io_lift (py_get image ''id'' JNull)) (\<lambda>image_id.
     io_bind (if truthy image_id then io_pure image_id
              else io_lift (py_get image ''media_id'' JNull)) (\<lambda>media_id.
     io_bind (io_lift (py_get image ''caption'' (JStr []))) (\<lambda>caption.
     io_seq (log INFO 305)
    (try_except
       (io_bind (download_whatsapp_media rt cfg media_id) (\<lambda>image_bytes.
        io_seq (log INFO 310)
       (io_bind (analyze_image rt cfg image_bytes) (\<lambda>analysis.
        io_bind (io_lift (py_slice analysis 100)) (\<lambda>preview.
        io_seq (log INFO 313)
       (let reply = image_reply (py_str rt analysis);
            reply = (if truthy caption then caption_prefix (py_str rt caption) @ reply
                     else reply)
        in try_except
             (io_seq (send_whatsapp_message rt cfg from_number (JStr reply)) (log INFO 321))
             reply_except))))))
       (image_except rt cfg from_number))))))"

text \<open>Lines 349 to 358: the \<^verbatim>\<open>except Exception\<close> clause of the text branch.\<close>

definition text_except :: "runtime \<Rightarrow> config \<Rightarrow> json \<Rightarrow> exc \<Rightarrow> unit io" where
  "text_except rt cfg from_number e =
     io_seq (log ERROR 350)
    (try_except
       (io_seq (send_whatsapp_message rt cfg from_number (JStr text_apology))
               (io_pure ()))
       (\<lambda>_. log ERROR 357))"

text \<open>Lines 340 to 358: a text message.\<close>

definition handle_text :: "runtime \<Rightarrow> config \<Rightarrow> json \<Rightarrow> json \<Rightarrow> unit io" where
  "handle_text rt cfg message from_number =
     io_bind (io_lift (py_getitem message ''text'')) (\<lambda>text_field.
     io_bind (io_lift (py_getitem text_field ''body'')) (\<lambda>question.
     io_seq (log INFO 342)
    (try_except
       (io_bind (answer_question rt cfg question) (\<lambda>answer.
        io_seq (send_whatsapp_message rt cfg from_number answer) (log INFO 348)))
       (text_except rt cfg from_number))))"

text \<open>Lines 300 to 366: the dispatch on the kind of the message.\<close>

definition dispatch_kind :: "runtime \<Rightarrow> config \<Rightarrow> json \<Rightarrow> json \<Rightarrow> json \<Rightarrow> unit io" where
  "dispatch_kind rt cfg message from_number msg_type =
     (if msg_type = JStr ''image'' then handle_image rt cfg message from_number
      else if msg_type = JStr ''text'' then handle_text rt cfg message from_number
      else
        io_seq (log INFO 362)
       (io_seq (send_whatsapp_message rt cfg from_number (JStr unsupported_reply))
               (io_pure ())))"

text \<open>Lines 294 to 366: the sender and kind of the message, then the dispatch.\<close>

definition dispatch_message :: "runtime \<Rightarrow> config \<Rightarrow> json \<Rightarrow> response option io" where
  "dispatch_message rt cfg message =
     io_bind (io_lift (py_getitem message ''from'')) (\<lambda>from_number.
     io_bind (io_lift (py_get message ''type'' JNull)) (\<lambda>msg_type.
     io_seq (log INFO 297)
    (io_seq (dispatch_kind rt cfg message from_number msg_type)
            (io_pure None))))"

text \<open>
  Lines 275 to 366, the body of the \<^verbatim>\<open>try\<close> statement of \<open>handle_webhook\<close>: \<open>Some r\<close>
  when it returns \<open>r\<close>, \<open>None\<close> when control reaches its end.
\<close>

definition webhook_body :: "runtime \<Rightarrow> config \<Rightarrow> json \<Rightarrow> response option io" where
  "webhook_body rt cfg body =
     io_bind (io_lift (py_contains ''entry'' body)) (\<lambda>has_entry.
     if \<not> has_entry then
       io_seq (log WARNING 277) (io_pure (Some (status_response ''ignored - no entry'')))
     else
       io_bind (io_lift (py_getitem body ''entry'')) (\<lambda>entries.
       io_bind (io_lift (py_first entries)) (\<lambda>entry.
       io_bind (io_lift (py_getitem entry ''changes'')) (\<lambda>change_list.
       io_bind (io_lift (py_first change_list)) (\<lambda>changes.
       io_bind (io_lift (py_getitem changes ''value'')) (\<lambda>val.
       io_bind (io_lift (py_keys val)) (\<lambda>keys.
       io_seq (log INFO 285)
      (io_bind (io_lift (py_get val ''messages'' JNull)) (\<lambda>messages.
       if \<not> truthy messages then
         io_seq (log INFO 290) (io_pure (Some (status_response ''no messages'')))
       else
         io_bind (io_lift (py_first messages)) (dispatch_message rt cfg))))))))))"

text \<open>Lines 368 to 372: the two \<^verbatim>\<open>except\<close> clauses of \<open>handle_webhook\<close>.\<close>

definition webhook_except :: "exc \<Rightarrow> response option io" where
  "webhook_except e =
     (case e of
        KeyError _ \<Rightarrow> io_seq (log ERROR 369) (io_seq (log ERROR 370) (io_pure None))
      | IndexError \<Rightarrow> io_seq (log ERROR 369) (io_seq (log ERROR 370) (io_pure None))
      | _ \<Rightarrow> io_seq (log ERROR 372) (io_pure None))"

definition handle_webhook :: "runtime \<Rightarrow> config \<Rightarrow> request \<Rightarrow> response io" where
  "handle_webhook rt cfg req =
     io_bind (io_lift (request_json req)) (\<lambda>body.
     io_seq (log INFO 272)
    (io_bind (try_except (webhook_body rt cfg body) webhook_except) (\<lambda>returned.
     io_pure (case returned of
                Some r \<Rightarrow> r
              | None \<Rightarrow> status_response ''ok''))))"

definition json_of_env :: "string option \<Rightarrow> json" where
  "json_of_env v = (case v of None \<Rightarrow> JNull | Some s \<Rightarrow> JStr s)"

definition health_check :: "config \<Rightarrow> response" where
  "health_check cfg =
     JSONResponse (JObj [(''status'', JStr ''running''),
                         (''phone_number_id'', json_of_env (PHONE_NUMBER_ID cfg)),
                         (''gemini_connected'', JBool (env_set (GEMINI_API_KEY cfg)))])"

definition debug_config :: "config \<Rightarrow> response" where
  "debug_config cfg =
     JSONResponse (JObj
       [(''whatsapp_token_set'', JBool (env_set (WHATSAPP_TOKEN cfg))),
        (''whatsapp_token_preview'',
           (if env_set (WHATSAPP_TOKEN cfg)
            then JStr (py_take 20 (str_of_env (WHATSAPP_TOKEN cfg)) @ ''...'')
            else JNull)),
        (''phone_number_id'', json_of_env (PHONE_NUMBER_ID cfg)),
        (''verify_token'', JStr (VERIFY_TOKEN cfg)),
        (''gemini_key_set'', JBool (env_set (GEMINI_API_KEY cfg)))])"

section \<open>Vocabulary of the properties\<close>

text \<open>
  The path the handler follows to the payload of a webhook event (lines 280 to 282),
  \<^verbatim>\<open>body["entry"][0]["changes"][0]["value"]\<close>, as a function of the body alone.
\<close>

definition entry_value :: "json \<Rightarrow> exc + json" where
  "entry_value body =
     result_bind (py_getitem body ''entry'') (\<lambda>entries.
     result_bind (py_first entries) (\<lambda>entry.
     result_bind (py_getitem entry ''changes'') (\<lambda>change_list.
     result_bind (py_first change_list) (\<lambda>changes.
     py_getitem changes ''value''))))"

text \<open>
  The first message of a body: the first element of the non-empty \<^verbatim>\<open>messages\<close> of
  the object at that path (lines 287 to 293), if there is one.
\<close>

definition first_message :: "json \<Rightarrow> json option" where
  "first_message body =
     (case entry_value body of
        Inr (JObj kvs) \<Rightarrow>
          (case map_of kvs ''messages'' of
             Some messages \<Rightarrow>
               (if truthy messages then
                  (case py_first messages of Inr message \<Rightarrow> Some message | Inl _ \<Rightarrow> None)
                else None)
           | None \<Rightarrow> None)
      | _ \<Rightarrow> None)"

text \<open>
  The media reference of an image object (line 302):
  \<^verbatim>\<open>image.get("id") or image.get("media_id")\<close>.
\<close>

definition image_media_id :: "json \<Rightarrow> exc + json" where
  "image_media_id image_field =
     result_bind (py_get image_field ''id'' JNull) (\<lambda>image_id.
     if truthy image_id then Inr image_id else py_get image_field ''media_id'' JNull)"

text \<open>The text of the reply to an image (lines 315 to 317).\<close>

definition composed_reply :: "runtime \<Rightarrow> json \<Rightarrow> json \<Rightarrow> string" where
  "composed_reply rt caption analysis =
     (if truthy caption then caption_prefix (py_str rt caption) else [])
       @ image_reply (py_str rt analysis)"

section \<open>Example inputs\<close>

definition example_config :: config where
  "example_config =
     \<lparr>WHATSAPP_TOKEN = Some ''EAAGexampleaccesstoken0123456789'',
      PHONE_NUMBER_ID = Some ''100200300'',
      VERIFY_TOKEN = ''mysecrettoken'',
      GEMINI_API_KEY = Some ''AIzaExampleKey''\<rparr>"

definition unconfigured_config :: config where
  "unconfigured_config = example_config\<lparr>GEMINI_API_KEY := None\<rparr>"

text \<open>The same configuration after every secret has been replaced.\<close>

definition rotated_config :: config where
  "rotated_config =
     example_config\<lparr>WHATSAPP_TOKEN := Some ''EAAGexampleaccesstokZZZZZZZZ'',
                    GEMINI_API_KEY := Some ''AIzaAnotherKey''\<rparr>"

definition ok_response :: "json \<Rightarrow> http_response" where
  "ok_response j =
     \<lparr>resp_status_code = 200, resp_text = ''(json)'', resp_content = [], resp_json = Some j\<rparr>"

definition error_response :: "nat \<Rightarrow> http_response" where
  "error_response code =
     \<lparr>resp_status_code = code, resp_text = ''error'', resp_content = [0x65, 0x72, 0x72, 0x6F, 0x72],
      resp_json = None\<rparr>"

definition image_response :: http_response where
  "image_response =
     \<lparr>resp_status_code = 200, resp_text = [], resp_content = [0xFF, 0xD8, 0xFF],
      resp_json = None\<rparr>"

definition gemini_response :: "string \<Rightarrow> http_response" where
  "gemini_response answer =
     ok_response (JObj [(''candidates'', JList [JObj [(''content'',
       JObj [(''parts'', JList [JObj [(''text'', JStr answer)]])])]])])"

text \<open>A world in which every remote end answers as documented.\<close>

definition healthy_runtime :: runtime where
  "healthy_runtime =
     \<lparr>respond = (\<lambda>t site req. case site of
          MediaResolution \<Rightarrow> Inr (ok_response (JObj [(''url'', JStr ''https://cdn.example/m1'')]))
        | MediaDownload \<Rightarrow> Inr image_response
        | InferenceImage \<Rightarrow> Inr (gemini_response ''A cat.'')
        | InferenceText \<Rightarrow> Inr (gemini_response ''Four.'')
        | Send \<Rightarrow> Inr (ok_response (JObj [(''messages'', JList [JObj [(''id'', JStr ''wamid.1'')]])]))),
      repr_value = (\<lambda>x. ''?''),
      str_exc = (\<lambda>e. case e of
          HTTPStatusError r \<Rightarrow> ''status '' @ str_of_nat (resp_status_code r)
        | _ \<Rightarrow> ''error'')\<rparr>"

text \<open>Worlds in which one remote end fails with a status code.\<close>

definition failing_runtime :: "call_site \<Rightarrow> nat \<Rightarrow> runtime" where
  "failing_runtime bad code =
     healthy_runtime\<lparr>respond := (\<lambda>t site req.
        if site = bad then Inr (error_response code) else respond healthy_runtime t site req)\<rparr>"

definition webhook_payload :: "json \<Rightarrow> json" where
  "webhook_payload val =
     JObj [(''object'', JStr ''whatsapp_business_account''),
           (''entry'', JList [JObj [(''id'', JStr ''1''),
              (''changes'', JList [JObj [(''field'', JStr ''messages''), (''value'', val)]])]])]"

definition message_payload :: "json \<Rightarrow> json" where
  "message_payload message = webhook_payload (JObj [(''messages'', JList [message])])"

definition text_message :: json where
  "text_message =
     JObj [(''from'', JStr ''15550001''), (''type'', JStr ''text''),
           (''text'', JObj [(''body'', JStr ''2+2?'')])]"

definition image_message :: json where
  "image_message =
     JObj [(''from'', JStr ''15550001''), (''type'', JStr ''image''),
           (''image'', JObj [(''id'', JStr ''m1''), (''caption'', JStr ''my cat'')])]"

definition video_message :: json where
  "video_message =
     JObj [(''from'', JStr ''15550001''), (''type'', JStr ''video''),
           (''video'', JObj [(''id'', JStr ''v1'')])]"

text \<open>A message of an unsupported kind that names no sender.\<close>

definition anonymous_video_message :: json where
  "anonymous_video_message =
     JObj [(''type'', JStr ''video''), (''video'', JObj [(''id'', JStr ''v1'')])]"

definition post_request :: "json \<Rightarrow> request" where
  "post_request body = \<lparr>query_params = [], request_json = Inr body\<rparr>"

definition undecodable_request :: request where
  "undecodable_request =
     \<lparr>query_params = [], request_json = Inl (ValueError ''JSONDecodeError'')\<rparr>"

definition get_request :: "(string \<times> string) list \<Rightarrow> request" where
  "get_request qs = \<lparr>query_params = qs, request_json = Inl (ValueError ''JSONDecodeError'')\<rparr>"

section \<open>Properties\<close>

lemmas io_defs = io_pure_def io_raise_def io_lift_def io_bind_def io_seq_def try_except_def
  log_def invoke_def http_call_def

subsection \<open>The webhook verifier\<close>

text \<open>
  Claim C3. A \<^verbatim>\<open>GET /webhook\<close> request is answered with success exactly when
  \<^verbatim>\<open>hub.mode\<close> is \<^verbatim>\<open>subscribe\<close> and \<^verbatim>\<open>hub.verify_token\<close> is the configured verify
  secret; the answer is then the plain text of \<^verbatim>\<open>hub.challenge\<close>, verbatim. Every
  other request is answered with status 403.
\<close>

theorem verify_webhook_decision:
  fixes cfg :: config and req :: request and t :: "event list"
  defines "params \<equiv> params_dict (query_params req)"
  defines "r \<equiv> fst (verify_webhook cfg req t)"
  shows "(http_status r = 200) =
           (params ''hub.mode'' = Some ''subscribe''
            \<and> params ''hub.verify_token'' = Some (VERIFY_TOKEN cfg))
         \<and> (http_status r = 200 \<or> http_status r = 403)
         \<and> (\<forall>c. http_status r = 200 \<and> params ''hub.challenge'' = Some c
               \<longrightarrow> r = Inr (PlainTextResponse c))
         \<and> (http_status r = 403 \<longrightarrow> r = Inl (HTTPException 403 ''Verification failed''))"
  unfolding params_def r_def
  by (simp add: verify_webhook_def http_status_def io_defs Let_def)

theorem verify_webhook_decision_witness:
  "fst (verify_webhook example_config
          (get_request [(''hub.mode'', ''subscribe''), (''hub.verify_token'', ''mysecrettoken''),
                        (''hub.challenge'', ''XYZ'')]) []) = Inr (PlainTextResponse ''XYZ'')
   \<and> http_status (fst (verify_webhook example_config
          (get_request [(''hub.mode'', ''subscribe''), (''hub.verify_token'', ''wrong''),
                        (''hub.challenge'', ''XYZ'')]) [])) = 403"
proof -
  let ?good = "get_request [(''hub.mode'', ''subscribe''), (''hub.verify_token'', ''mysecrettoken''),
                            (''hub.challenge'', ''XYZ'')]"
  let ?bad = "get_request [(''hub.mode'', ''subscribe''), (''hub.verify_token'', ''wrong''),
                           (''hub.challenge'', ''XYZ'')]"
  have good: "params_dict (query_params ?good) ''hub.mode'' = Some ''subscribe''"
    "params_dict (query_params ?good) ''hub.verify_token'' = Some (VERIFY_TOKEN example_config)"
    "params_dict (query_params ?good) ''hub.challenge'' = Some ''XYZ''"
    by (simp_all add: params_dict_def get_request_def example_config_def)
  have bad: "params_dict (query_params ?bad) ''hub.verify_token'' \<noteq> Some (VERIFY_TOKEN example_config)"
    by (simp add: params_dict_def get_request_def example_config_def)
  from verify_webhook_decision [of example_config ?good "[]"] good
  have "fst (verify_webhook example_config ?good []) = Inr (PlainTextResponse ''XYZ'')"
    by blast
  moreover from verify_webhook_decision [of example_config ?bad "[]"] bad
  have "http_status (fst (verify_webhook example_config ?bad [])) = 403"
    by blast
  ultimately show ?thesis by blast
qed

text \<open>
  Claim C10. The decision of the verifier depends on \<^verbatim>\<open>hub.mode\<close> and
  \<^verbatim>\<open>hub.verify_token\<close> only: two requests that agree on both get the same status. With
  mode \<^verbatim>\<open>subscribe\<close> and the matching token the answer is a success whatever the
  challenge is; it carries the challenge as it came, and an empty body when the
  challenge is absent.
\<close>

theorem verify_webhook_ignores_challenge:
  fixes cfg :: config and req req' :: request and t t' :: "event list"
  shows "(params_dict (query_params req) ''hub.mode'' = params_dict (query_params req') ''hub.mode''
          \<and> params_dict (query_params req) ''hub.verify_token''
              = params_dict (query_params req') ''hub.verify_token''
          \<longrightarrow> http_status (fst (verify_webhook cfg req t)) = http_status (fst (verify_webhook cfg req' t')))
       \<and> (params_dict (query_params req) ''hub.mode'' = Some ''subscribe''
          \<and> params_dict (query_params req) ''hub.verify_token'' = Some (VERIFY_TOKEN cfg)
          \<longrightarrow> fst (verify_webhook cfg req t)
               = Inr (PlainTextResponse (case params_dict (query_params req) ''hub.challenge'' of
                                           None \<Rightarrow> [] | Some c \<Rightarrow> c)))"
  by (simp add: verify_webhook_def http_status_def io_defs Let_def)

theorem verify_webhook_ignores_challenge_witness:
  "http_status (fst (verify_webhook example_config
          (get_request [(''hub.mode'', ''subscribe''), (''hub.verify_token'', ''mysecrettoken'')]) []))
     = http_status (fst (verify_webhook example_config
          (get_request [(''hub.verify_token'', ''mysecrettoken''), (''hub.challenge'', ''<b>1 2</b>''),
                        (''hub.mode'', ''subscribe'')]) []))
   \<and> fst (verify_webhook example_config
          (get_request [(''hub.mode'', ''subscribe''), (''hub.verify_token'', ''mysecrettoken'')]) [])
       = Inr (PlainTextResponse [])"
proof -
  let ?bare = "get_request [(''hub.mode'', ''subscribe''), (''hub.verify_token'', ''mysecrettoken'')]"
  let ?full = "get_request [(''hub.verify_token'', ''mysecrettoken''),
                 (''hub.challenge'', ''<b>1 2</b>''), (''hub.mode'', ''subscribe'')]"
  have mode: "params_dict (query_params ?bare) ''hub.mode'' = params_dict (query_params ?full) ''hub.mode''"
    by (simp add: params_dict_def get_request_def)
  have token: "params_dict (query_params ?bare) ''hub.verify_token''
                 = params_dict (query_params ?full) ''hub.verify_token''"
    by (simp add: params_dict_def get_request_def)
  have sub: "params_dict (query_params ?bare) ''hub.mode'' = Some ''subscribe''"
    by (simp add: params_dict_def get_request_def)
  have tok: "params_dict (query_params ?bare) ''hub.verify_token'' = Some (VERIFY_TOKEN example_config)"
    by (simp add: params_dict_def get_request_def example_config_def)
  have absent: "params_dict (query_params ?bare) ''hub.challenge'' = None"
    by (simp add: params_dict_def get_request_def)
  note inst = verify_webhook_ignores_challenge [of ?bare ?full example_config "[]" "[]"]
  from inst mode token have "http_status (fst (verify_webhook example_config ?bare []))
      = http_status (fst (verify_webhook example_config ?full []))"
    by blast
  moreover from inst sub tok absent
  have "fst (verify_webhook example_config ?bare []) = Inr (PlainTextResponse [])"
    by simp
  ultimately show ?thesis by blast
qed

subsection \<open>What the helpers add to a trace\<close>

lemma invocations_append: "invocations (a @ b) = invocations a @ invocations b"
  by (induction a rule: invocations.induct) simp_all

lemma requests_append: "requests (a @ b) = requests a @ requests b"
  by (induction a rule: requests.induct) simp_all

lemma log_lines_append: "log_lines (a @ b) = log_lines a @ log_lines b"
  by (induction a rule: log_lines.induct) simp_all

lemmas trace_append = invocations_append requests_append log_lines_append

lemma send_invocations:
  "invocations (snd (send_whatsapp_message rt cfg to body t))
     = invocations t @ [Send_message to body]"
  by (simp add: send_whatsapp_message_def io_defs raise_for_status_def trace_append
           split: sum.splits prod.splits)

lemma send_requests:
  "requests (snd (send_whatsapp_message rt cfg to body t))
     = requests t @ [(Send, send_request cfg to body)]"
  by (simp add: send_whatsapp_message_def io_defs raise_for_status_def trace_append
           split: sum.splits prod.splits)

lemma answer_question_returns:
  "\<exists>answer. fst (answer_question rt cfg question t) = Inr answer"
  by (simp add: answer_question_def io_defs raise_for_status_def
           split: sum.splits prod.splits exc.splits)

lemma answer_question_invocations:
  "invocations (snd (answer_question rt cfg question t))
     = invocations t @ [Answer_question question]"
  by (simp add: answer_question_def io_defs raise_for_status_def trace_append
           split: sum.splits prod.splits exc.splits)

lemma answer_question_requests:
  "requests (snd (answer_question rt cfg question t))
     = requests t @ (if env_set (GEMINI_API_KEY cfg)
                     then [(InferenceText, question_request cfg question)] else [])"
  by (simp add: answer_question_def io_defs raise_for_status_def trace_append
           split: sum.splits prod.splits exc.splits)

lemma analyze_image_returns:
  "\<exists>analysis. fst (analyze_image rt cfg image_bytes t) = Inr analysis"
  by (simp add: analyze_image_def io_defs raise_for_status_def
           split: sum.splits prod.splits exc.splits)

lemma analyze_image_invocations:
  "invocations (snd (analyze_image rt cfg image_bytes t))
     = invocations t @ [Analyze_image image_bytes]"
  by (simp add: analyze_image_def io_defs raise_for_status_def trace_append
           split: sum.splits prod.splits exc.splits)

lemma analyze_image_requests:
  "requests (snd (analyze_image rt cfg image_bytes t))
     = requests t @ (if env_set (GEMINI_API_KEY cfg)
                     then [(InferenceImage, vision_request cfg image_bytes)] else [])"
  by (simp add: analyze_image_def io_defs raise_for_status_def trace_append
           split: sum.splits prod.splits exc.splits)

lemma download_invocations:
  "invocations (snd (download_whatsapp_media rt cfg media_id t))
     = invocations t @ [Download_media media_id]"
  by (auto simp add: download_whatsapp_media_def io_defs raise_for_status_def trace_append
           split: sum.splits prod.splits json.splits)

lemma download_success:
  assumes "download_whatsapp_media rt cfg media_id t = (Inr image_bytes, t')"
  shows "\<exists>u. requests t' = requests t @ [(MediaResolution, media_info_request rt cfg media_id),
                                          (MediaDownload, media_download_request cfg u)]"
  using assms
  by (auto simp add: download_whatsapp_media_def io_defs raise_for_status_def trace_append
           split: sum.splits prod.splits json.splits if_splits)

subsection \<open>The structure of the webhook handler\<close>

lemma webhook_except_result: "fst (webhook_except e t) = Inr None"
  by (simp add: webhook_except_def io_defs split: exc.splits)

lemma webhook_except_invocations: "invocations (snd (webhook_except e t)) = invocations t"
  by (simp add: webhook_except_def io_defs trace_append split: exc.splits)

lemma webhook_except_requests: "requests (snd (webhook_except e t)) = requests t"
  by (simp add: webhook_except_def io_defs trace_append split: exc.splits)

lemma dispatch_message_result:
  "fst (dispatch_message rt cfg message t) = Inr returned \<Longrightarrow> returned = None"
  by (auto simp add: dispatch_message_def io_defs split: sum.splits prod.splits if_splits)

lemma webhook_body_result:
  assumes "fst (webhook_body rt cfg body t) = Inr (Some r)"
  shows "r = status_response ''ignored - no entry'' \<or> r = status_response ''no messages''"
  using assms dispatch_message_result [of rt cfg _ "t @ [Log INFO 285]" "Some r"]
  by (auto simp add: webhook_body_def io_defs split: sum.splits prod.splits if_splits)

lemma handle_webhook_decoded:
  assumes "request_json req = Inr body"
  shows "fst (handle_webhook rt cfg req t) = Inr (status_response ''ok'')
       \<or> fst (handle_webhook rt cfg req t) = Inr (status_response ''ignored - no entry'')
       \<or> fst (handle_webhook rt cfg req t) = Inr (status_response ''no messages'')"
proof (cases "webhook_body rt cfg body (t @ [Log INFO 272])")
  case (Pair r t')
  show ?thesis
  proof (cases r)
    case (Inl e)
    with Pair assms webhook_except_result [of e t'] show ?thesis
      by (cases "webhook_except e t'") (simp add: handle_webhook_def io_defs)
  next
    case (Inr returned)
    show ?thesis
    proof (cases returned)
      case None
      with Pair Inr assms show ?thesis by (simp add: handle_webhook_def io_defs)
    next
      case (Some x)
      with Pair Inr webhook_body_result [of rt cfg body "t @ [Log INFO 272]" x]
      have "x = status_response ''ignored - no entry'' \<or> x = status_response ''no messages''"
        by simp
      with Pair Inr Some assms show ?thesis by (auto simp add: handle_webhook_def io_defs)
    qed
  qed
qed

lemma getitem_contains: "py_getitem x k = Inr v \<Longrightarrow> py_contains k x = Inr True"
  by (auto simp add: py_getitem_def py_contains_def split: json.splits option.splits)

lemma webhook_body_message:
  assumes "first_message body = Some message"
  shows "webhook_body rt cfg body t = dispatch_message rt cfg message (t @ [Log INFO 285])"
proof -
  from assms obtain entries entry change_list changes kvs messages where
    path: "py_getitem body ''entry'' = Inr entries" "py_first entries = Inr entry"
      "py_getitem entry ''changes'' = Inr change_list" "py_first change_list = Inr changes"
      "py_getitem changes ''value'' = Inr (JObj kvs)"
    and msgs: "map_of kvs ''messages'' = Some messages" "truthy messages"
      "py_first messages = Inr message"
    by (auto simp add: first_message_def entry_value_def result_bind_def
             split: sum.splits json.splits option.splits if_splits)
  from path(1) have "py_contains ''entry'' body = Inr True" by (rule getitem_contains)
  with path msgs show ?thesis
    by (simp add: webhook_body_def io_defs py_keys_def py_get_def)
qed

lemma dispatch_message_run:
  assumes "py_getitem message ''from'' = Inr from_number"
    and "py_get message ''type'' JNull = Inr msg_type"
    and "dispatch_kind rt cfg message from_number msg_type (t @ [Log INFO 297]) = (r, t')"
  shows "dispatch_message rt cfg message t
           = (case r of Inl e \<Rightarrow> (Inl e, t') | Inr u \<Rightarrow> (Inr None, t'))"
  using assms by (simp add: dispatch_message_def io_defs split: sum.splits)

lemma handle_webhook_message:
  assumes "request_json req = Inr body" and "first_message body = Some message"
    and "py_getitem message ''from'' = Inr from_number"
    and "py_get message ''type'' JNull = Inr msg_type"
    and "dispatch_kind rt cfg message from_number msg_type
           (t @ [Log INFO 272, Log INFO 285, Log INFO 297]) = (r, t')"
  shows "handle_webhook rt cfg req t =
           (Inr (status_response ''ok''),
            case r of Inl e \<Rightarrow> snd (webhook_except e t') | Inr u \<Rightarrow> t')"
proof -
  have "webhook_body rt cfg body (t @ [Log INFO 272])
          = dispatch_message rt cfg message (t @ [Log INFO 272, Log INFO 285])"
    using webhook_body_message [OF assms(2), of rt cfg "t @ [Log INFO 272]"] by simp
  also have "\<dots> = (case r of Inl e \<Rightarrow> (Inl e, t') | Inr u \<Rightarrow> (Inr None, t'))"
    using assms(5) by (intro dispatch_message_run [OF assms(3,4)]) simp
  finally have body: "webhook_body rt cfg body (t @ [Log INFO 272])
          = (case r of Inl e \<Rightarrow> (Inl e, t') | Inr u \<Rightarrow> (Inr None, t'))" .
  show ?thesis
  proof (cases r)
    case (Inl e)
    obtain t'' where "webhook_except e t' = (Inr None, t'')"
      using webhook_except_result [of e t'] by (cases "webhook_except e t'") simp
    with Inl body assms(1) show ?thesis
      by (simp add: handle_webhook_def io_defs)
  next
    case (Inr u)
    with body assms(1) show ?thesis
      by (simp add: handle_webhook_def io_defs)
  qed
qed


lemma first_message_payload: "first_message (message_payload m) = Some m"
  by (simp add: first_message_def entry_value_def result_bind_def message_payload_def
        webhook_payload_def py_getitem_def py_first_def truthy_def)


subsection \<open>Payloads without a message\<close>

text \<open>
  Claim C8, as stated: every body lacking an \<^verbatim>\<open>entry\<close> key is answered with
  \<^verbatim>\<open>{"status": "ignored - no entry"}\<close>, and every body with a valid entry whose value
  carries no \<^verbatim>\<open>messages\<close> key with \<^verbatim>\<open>{"status": "no messages"}\<close>. It fails for a
  body that is a number: the test at line 276 raises \<^verbatim>\<open>TypeError\<close>, which the
  clause at line 371 logs, and the answer is \<^verbatim>\<open>{"status": "ok"}\<close>. It fails likewise
  when the value at \<^verbatim>\<open>entry[0].changes[0].value\<close> is a string: \<^verbatim>\<open>value.keys()\<close> at
  line 285 raises \<^verbatim>\<open>AttributeError\<close>.
\<close>

theorem scalar_body_answered_ok:
  "handle_webhook healthy_runtime example_config (post_request (JInt 5)) []
     = (Inr (status_response ''ok''), [Log INFO 272, Log ERROR 372])
   \<and> handle_webhook healthy_runtime example_config
        (post_request (webhook_payload (JStr ''delivered''))) []
     = (Inr (status_response ''ok''), [Log INFO 272, Log ERROR 372])
   \<and> status_response ''ok'' \<noteq> status_response ''ignored - no entry''
   \<and> status_response ''ok'' \<noteq> status_response ''no messages''"
  by (simp add: handle_webhook_def webhook_body_def webhook_except_def io_defs
        py_contains_def py_getitem_def py_first_def py_keys_def post_request_def
        webhook_payload_def status_response_def)

text \<open>
  Claim C8, amended. The answer to a \<^verbatim>\<open>POST /webhook\<close> is
  \<^verbatim>\<open>{"status": "ignored - no entry"}\<close> when the body is a JSON object without the key
  \<^verbatim>\<open>entry\<close>, a list without the element \<^verbatim>\<open>"entry"\<close>, or a string in which
  \<^verbatim>\<open>entry\<close> does not occur; it is \<^verbatim>\<open>{"status": "ok"}\<close> when the body is null, a
  boolean or a number. When \<^verbatim>\<open>entry[0].changes[0].value\<close> exists, the answer is
  \<^verbatim>\<open>{"status": "no messages"}\<close> if that value is an object without the key
  \<^verbatim>\<open>messages\<close>, and \<^verbatim>\<open>{"status": "ok"}\<close> if it is not an object. In every one of
  these cases the status is 200 and the run adds log lines only: no helper is invoked
  and no request is sent.
\<close>

theorem ignored_payloads:
  "(request_json req = Inr body
    \<and> ((\<exists>kvs. body = JObj kvs \<and> map_of kvs ''entry'' = None)
       \<or> (\<exists>xs. body = JList xs \<and> JStr ''entry'' \<notin> set xs)
       \<or> (\<exists>s. body = JStr s \<and> \<not> is_substring ''entry'' s))
      \<longrightarrow> handle_webhook rt cfg req t
            = (Inr (status_response ''ignored - no entry''),
               t @ [Log INFO 272, Log WARNING 277]))
   \<and> (request_json req = Inr body
    \<and> (body = JNull \<or> (\<exists>b. body = JBool b) \<or> (\<exists>i. body = JInt i) \<or> (\<exists>f. body = JFloat f))
      \<longrightarrow> handle_webhook rt cfg req t
            = (Inr (status_response ''ok''), t @ [Log INFO 272, Log ERROR 372]))
   \<and> (request_json req = Inr body \<and> entry_value body = Inr (JObj vs)
       \<and> map_of vs ''messages'' = None
      \<longrightarrow> handle_webhook rt cfg req t
            = (Inr (status_response ''no messages''),
               t @ [Log INFO 272, Log INFO 285, Log INFO 290]))
   \<and> (request_json req = Inr body \<and> entry_value body = Inr val \<and> (\<forall>vs. val \<noteq> JObj vs)
      \<longrightarrow> handle_webhook rt cfg req t
            = (Inr (status_response ''ok''), t @ [Log INFO 272, Log ERROR 372]))
   \<and> (handle_webhook rt cfg req t = (Inr (status_response ''ignored - no entry''),
                                      t @ [Log INFO 272, Log WARNING 277])
       \<or> handle_webhook rt cfg req t = (Inr (status_response ''no messages''),
                                         t @ [Log INFO 272, Log INFO 285, Log INFO 290])
       \<or> handle_webhook rt cfg req t = (Inr (status_response ''ok''),
                                         t @ [Log INFO 272, Log ERROR 372])
      \<longrightarrow> http_status (fst (handle_webhook rt cfg req t)) = 200
          \<and> invocations (snd (handle_webhook rt cfg req t)) = invocations t
          \<and> requests (snd (handle_webhook rt cfg req t)) = requests t)"
proof (intro conjI impI)
  assume "request_json req = Inr body
    \<and> ((\<exists>kvs. body = JObj kvs \<and> map_of kvs ''entry'' = None)
       \<or> (\<exists>xs. body = JList xs \<and> JStr ''entry'' \<notin> set xs)
       \<or> (\<exists>s. body = JStr s \<and> \<not> is_substring ''entry'' s))"
  then have "request_json req = Inr body" and "py_contains ''entry'' body = Inr False"
    by (auto simp add: py_contains_def)
  then show "handle_webhook rt cfg req t
            = (Inr (status_response ''ignored - no entry''), t @ [Log INFO 272, Log WARNING 277])"
    by (simp add: handle_webhook_def webhook_body_def io_defs)
next
  assume "request_json req = Inr body
    \<and> (body = JNull \<or> (\<exists>b. body = JBool b) \<or> (\<exists>i. body = JInt i) \<or> (\<exists>f. body = JFloat f))"
  then have "request_json req = Inr body" and "py_contains ''entry'' body = Inl TypeError"
    by (auto simp add: py_contains_def)
  then show "handle_webhook rt cfg req t
            = (Inr (status_response ''ok''), t @ [Log INFO 272, Log ERROR 372])"
    by (simp add: handle_webhook_def webhook_body_def webhook_except_def io_defs)
next
  assume a: "request_json req = Inr body \<and> entry_value body = Inr (JObj vs)
       \<and> map_of vs ''messages'' = None"
  then obtain entries entry change_list changes where
    path: "py_getitem body ''entry'' = Inr entries" "py_first entries = Inr entry"
      "py_getitem entry ''changes'' = Inr change_list" "py_first change_list = Inr changes"
      "py_getitem changes ''value'' = Inr (JObj vs)"
    by (auto simp add: entry_value_def result_bind_def split: sum.splits)
  from path(1) have "py_contains ''entry'' body = Inr True" by (rule getitem_contains)
  with path a show "handle_webhook rt cfg req t
            = (Inr (status_response ''no messages''),
               t @ [Log INFO 272, Log INFO 285, Log INFO 290])"
    by (simp add: handle_webhook_def webhook_body_def io_defs py_keys_def py_get_def truthy_def)
next
  assume a: "request_json req = Inr body \<and> entry_value body = Inr val \<and> (\<forall>vs. val \<noteq> JObj vs)"
  then obtain entries entry change_list changes where
    path: "py_getitem body ''entry'' = Inr entries" "py_first entries = Inr entry"
      "py_getitem entry ''changes'' = Inr change_list" "py_first change_list = Inr changes"
      "py_getitem changes ''value'' = Inr val"
    by (auto simp add: entry_value_def result_bind_def split: sum.splits)
  from path(1) have contained: "py_contains ''entry'' body = Inr True" by (rule getitem_contains)
  from a have "py_keys val = Inl AttributeError"
    by (cases val) (simp_all add: py_keys_def)
  with path contained a show "handle_webhook rt cfg req t
            = (Inr (status_response ''ok''), t @ [Log INFO 272, Log ERROR 372])"
    by (simp add: handle_webhook_def webhook_body_def webhook_except_def io_defs)
next
  assume "handle_webhook rt cfg req t = (Inr (status_response ''ignored - no entry''),
                                      t @ [Log INFO 272, Log WARNING 277])
       \<or> handle_webhook rt cfg req t = (Inr (status_response ''no messages''),
                                         t @ [Log INFO 272, Log INFO 285, Log INFO 290])
       \<or> handle_webhook rt cfg req t = (Inr (status_response ''ok''),
                                         t @ [Log INFO 272, Log ERROR 372])"
  then show "http_status (fst (handle_webhook rt cfg req t)) = 200"
    and "invocations (snd (handle_webhook rt cfg req t)) = invocations t"
    and "requests (snd (handle_webhook rt cfg req t)) = requests t"
    by (auto simp add: http_status_def trace_append)
qed

theorem ignored_payloads_witness:
  "handle_webhook healthy_runtime example_config
      (post_request (JObj [(''object'', JStr ''whatsapp_business_account'')])) []
     = (Inr (status_response ''ignored - no entry''), [Log INFO 272, Log WARNING 277])
   \<and> handle_webhook healthy_runtime example_config (post_request (JList [])) []
     = (Inr (status_response ''ignored - no entry''), [Log INFO 272, Log WARNING 277])
   \<and> handle_webhook healthy_runtime example_config (post_request JNull) []
     = (Inr (status_response ''ok''), [Log INFO 272, Log ERROR 372])
   \<and> handle_webhook healthy_runtime example_config
      (post_request (webhook_payload (JObj [(''statuses'', JList [])]))) []
     = (Inr (status_response ''no messages''), [Log INFO 272, Log INFO 285, Log INFO 290])"
proof -
  let ?bare = "JObj [(''object'', JStr ''whatsapp_business_account'')]"
  let ?status = "webhook_payload (JObj [(''statuses'', JList [])])"
  have bare: "request_json (post_request ?bare) = Inr ?bare
    \<and> ((\<exists>kvs. ?bare = JObj kvs \<and> map_of kvs ''entry'' = None)
       \<or> (\<exists>xs. ?bare = JList xs \<and> JStr ''entry'' \<notin> set xs)
       \<or> (\<exists>s. ?bare = JStr s \<and> \<not> is_substring ''entry'' s))"
    by (simp add: post_request_def)
  have empty: "request_json (post_request (JList [])) = Inr (JList [])
    \<and> ((\<exists>kvs. JList [] = JObj kvs \<and> map_of kvs ''entry'' = None)
       \<or> (\<exists>xs. JList [] = JList xs \<and> JStr ''entry'' \<notin> set xs)
       \<or> (\<exists>s. JList [] = JStr s \<and> \<not> is_substring ''entry'' s))"
    by (simp add: post_request_def)
  have null: "request_json (post_request JNull) = Inr JNull
    \<and> (JNull = JNull \<or> (\<exists>b. JNull = JBool b) \<or> (\<exists>i. JNull = JInt i)
        \<or> (\<exists>f. JNull = JFloat f))"
    by (simp add: post_request_def)
  have status: "request_json (post_request ?status) = Inr ?status
        \<and> entry_value ?status = Inr (JObj [(''statuses'', JList [])])
        \<and> map_of [(''statuses'', JList [])] ''messages'' = None"
    by (simp add: post_request_def entry_value_def result_bind_def webhook_payload_def
          py_getitem_def py_first_def)
  note first = ignored_payloads [where req = "post_request ?bare" and body = ?bare
      and rt = healthy_runtime and cfg = example_config and t = "[]",
      THEN conjunct1, THEN mp, OF bare]
  note second = ignored_payloads [where req = "post_request (JList [])" and body = "JList []"
      and rt = healthy_runtime and cfg = example_config and t = "[]",
      THEN conjunct1, THEN mp, OF empty]
  note third = ignored_payloads [where req = "post_request JNull" and body = JNull
      and rt = healthy_runtime and cfg = example_config and t = "[]",
      THEN conjunct2, THEN conjunct1, THEN mp, OF null]
  note fourth = ignored_payloads [where req = "post_request ?status" and body = ?status
      and rt = healthy_runtime and cfg = example_config and t = "[]",
      THEN conjunct2, THEN conjunct2, THEN conjunct1, THEN mp, OF status]
  from first second third fourth show ?thesis by simp
qed

subsection \<open>Unsupported kinds\<close>

text \<open>
  Claim C7, as stated: every payload whose first message has a kind other than
  \<^verbatim>\<open>image\<close> or \<^verbatim>\<open>text\<close> leads to exactly one send call. It fails when that message
  names no sender: line 294 reads \<^verbatim>\<open>message["from"]\<close> before the kind, the
  \<^verbatim>\<open>KeyError\<close> is logged by the clause at line 368, and nothing is sent.
\<close>

theorem anonymous_message_no_send:
  "first_message (message_payload anonymous_video_message) = Some anonymous_video_message
   \<and> py_get anonymous_video_message ''type'' JNull = Inr (JStr ''video'')
   \<and> handle_webhook healthy_runtime example_config
        (post_request (message_payload anonymous_video_message)) []
     = (Inr (status_response ''ok''),
        [Log INFO 272, Log INFO 285, Log ERROR 369, Log ERROR 370])
   \<and> invocations [Log INFO 272, Log INFO 285, Log ERROR 369, Log ERROR 370] = []
   \<and> requests [Log INFO 272, Log INFO 285, Log ERROR 369, Log ERROR 370] = []"
  by (simp add: handle_webhook_def webhook_body_def dispatch_message_def webhook_except_def
        io_defs py_contains_def py_getitem_def py_first_def py_keys_def py_get_def truthy_def
        first_message_def entry_value_def result_bind_def post_request_def
        message_payload_def webhook_payload_def anonymous_video_message_def)

text \<open>
  Claim C7, amended. When the first message of the payload carries a sender and its
  kind is neither \<^verbatim>\<open>image\<close> nor \<^verbatim>\<open>text\<close>, the run invokes exactly one helper, the
  reply sender with the fixed unsupported-type text, and sends exactly one request,
  that reply: there is no inference call and no media call. The answer is
  \<^verbatim>\<open>{"status": "ok"}\<close> whether or not the reply could be sent.
\<close>

theorem unsupported_kind_one_send:
  assumes "request_json req = Inr body" and "first_message body = Some message"
    and "py_getitem message ''from'' = Inr from_number"
    and "py_get message ''type'' JNull = Inr msg_type"
    and "msg_type \<noteq> JStr ''image''" and "msg_type \<noteq> JStr ''text''"
  shows "fst (handle_webhook rt cfg req t) = Inr (status_response ''ok'')
       \<and> invocations (snd (handle_webhook rt cfg req t))
           = invocations t @ [Send_message from_number (JStr unsupported_reply)]
       \<and> requests (snd (handle_webhook rt cfg req t))
           = requests t @ [(Send, send_request cfg from_number (JStr unsupported_reply))]"
proof -
  let ?t1 = "t @ [Log INFO 272, Log INFO 285, Log INFO 297, Log INFO 362]"
  obtain r t' where sent:
    "send_whatsapp_message rt cfg from_number (JStr unsupported_reply) ?t1 = (r, t')"
    by (cases "send_whatsapp_message rt cfg from_number (JStr unsupported_reply) ?t1")
  from send_invocations [of rt cfg from_number "JStr unsupported_reply" ?t1] sent
  have inv: "invocations t' = invocations t @ [Send_message from_number (JStr unsupported_reply)]"
    by (simp add: trace_append)
  from send_requests [of rt cfg from_number "JStr unsupported_reply" ?t1] sent
  have reqs: "requests t' = requests t @ [(Send, send_request cfg from_number (JStr unsupported_reply))]"
    by (simp add: trace_append)
  have kind: "dispatch_kind rt cfg message from_number msg_type
                (t @ [Log INFO 272, Log INFO 285, Log INFO 297])
              = (case r of Inl e \<Rightarrow> Inl e | Inr u \<Rightarrow> Inr (), t')"
    using sent assms(5,6) by (simp add: dispatch_kind_def io_defs split: sum.splits)
  have run: "handle_webhook rt cfg req t =
           (Inr (status_response ''ok''),
            case r of Inl e \<Rightarrow> snd (webhook_except e t') | Inr u \<Rightarrow> t')"
    using handle_webhook_message [OF assms(1-4) kind] by (simp split: sum.splits)
  show ?thesis
    using run inv reqs
    by (simp add: webhook_except_invocations webhook_except_requests split: sum.splits)
qed


theorem unsupported_kind_one_send_witness:
  "fst (handle_webhook healthy_runtime example_config
          (post_request (message_payload video_message)) []) = Inr (status_response ''ok'')
   \<and> invocations (snd (handle_webhook healthy_runtime example_config
          (post_request (message_payload video_message)) []))
       = [Send_message (JStr ''15550001'') (JStr unsupported_reply)]
   \<and> map fst (requests (snd (handle_webhook healthy_runtime example_config
          (post_request (message_payload video_message)) []))) = [Send]"
proof -
  have "request_json (post_request (message_payload video_message))
          = Inr (message_payload video_message)"
    by (simp add: post_request_def)
  moreover have "py_getitem video_message ''from'' = Inr (JStr ''15550001'')"
    by (simp add: py_getitem_def video_message_def)
  moreover have "py_get video_message ''type'' JNull = Inr (JStr ''video'')"
    by (simp add: py_get_def video_message_def)
  moreover have "JStr ''video'' \<noteq> JStr ''image''" and "JStr ''video'' \<noteq> JStr ''text''"
    by simp_all
  ultimately show ?thesis
    using unsupported_kind_one_send [OF _ first_message_payload, of
        "post_request (message_payload video_message)" video_message "JStr ''15550001''"
        "JStr ''video''" healthy_runtime example_config "[]"]
    by simp
qed


subsection \<open>The always-200 policy\<close>

text \<open>
  Claim C1. Every \<^verbatim>\<open>POST /webhook\<close> request is answered with status 200 and a JSON
  status acknowledgment; no exception leaves the handler. This holds once the body
  has been decoded (\<open>handle_webhook_decoded\<close> above), but the decoding itself, line
  271, stands before the \<^verbatim>\<open>try\<close> statement: for a request whose body is not JSON
  the exception of \<^verbatim>\<open>request.json()\<close> leaves the handler, nothing is logged, and the
  request is answered with status 500.
\<close>

theorem undecodable_body_escapes:
  "handle_webhook rt cfg undecodable_request t = (Inl (ValueError ''JSONDecodeError''), t)
   \<and> http_status (fst (handle_webhook rt cfg undecodable_request t)) = 500"
  by (simp add: handle_webhook_def undecodable_request_def io_defs http_status_def)


subsection \<open>The health and debug reporters\<close>

text \<open>
  Claim C9, as stated: no configured secret appears in full in the answer of
  \<^verbatim>\<open>GET /health\<close> or \<^verbatim>\<open>GET /debug\<close>. It fails for \<^verbatim>\<open>GET /debug\<close>, whose field
  \<^verbatim>\<open>verify_token\<close> is the webhook verify secret itself: changing the secret changes
  the answer.
\<close>

theorem debug_returns_verify_secret:
  "debug_config example_config =
     JSONResponse (JObj [(''whatsapp_token_set'', JBool True),
                         (''whatsapp_token_preview'', JStr ''EAAGexampleaccesstok...''),
                         (''phone_number_id'', JStr ''100200300''),
                         (''verify_token'', JStr ''mysecrettoken''),
                         (''gemini_key_set'', JBool True)])
   \<and> VERIFY_TOKEN example_config = ''mysecrettoken''
   \<and> debug_config (example_config\<lparr>VERIFY_TOKEN := ''another secret''\<rparr>)
       \<noteq> debug_config example_config"
  by (simp add: debug_config_def example_config_def env_set_def str_of_env_def
        json_of_env_def is_continuation_def)


text \<open>
  Claim C9, amended. The answer of \<^verbatim>\<open>GET /health\<close> depends on the configuration
  only through the phone-number id and through whether the AI credential is set. The
  answer of \<^verbatim>\<open>GET /debug\<close> depends on it only through the phone-number id, the
  verify secret, whether the AI credential and the access token are set, and the
  first 20 characters of the access token.
\<close>

theorem reporters_dependence:
  "(PHONE_NUMBER_ID cfg = PHONE_NUMBER_ID cfg'
    \<and> env_set (GEMINI_API_KEY cfg) = env_set (GEMINI_API_KEY cfg')
    \<longrightarrow> health_check cfg = health_check cfg')
   \<and> (PHONE_NUMBER_ID cfg = PHONE_NUMBER_ID cfg'
    \<and> env_set (GEMINI_API_KEY cfg) = env_set (GEMINI_API_KEY cfg')
    \<and> VERIFY_TOKEN cfg = VERIFY_TOKEN cfg'
    \<and> env_set (WHATSAPP_TOKEN cfg) = env_set (WHATSAPP_TOKEN cfg')
    \<and> py_take 20 (str_of_env (WHATSAPP_TOKEN cfg)) = py_take 20 (str_of_env (WHATSAPP_TOKEN cfg'))
    \<longrightarrow> debug_config cfg = debug_config cfg')"
  by (simp add: health_check_def debug_config_def)

theorem reporters_dependence_witness:
  "WHATSAPP_TOKEN example_config \<noteq> WHATSAPP_TOKEN rotated_config
   \<and> GEMINI_API_KEY example_config \<noteq> GEMINI_API_KEY rotated_config
   \<and> health_check example_config = health_check rotated_config
   \<and> debug_config example_config = debug_config rotated_config"
proof -
  have "PHONE_NUMBER_ID example_config = PHONE_NUMBER_ID rotated_config
    \<and> env_set (GEMINI_API_KEY example_config) = env_set (GEMINI_API_KEY rotated_config)
    \<and> VERIFY_TOKEN example_config = VERIFY_TOKEN rotated_config
    \<and> env_set (WHATSAPP_TOKEN example_config) = env_set (WHATSAPP_TOKEN rotated_config)
    \<and> py_take 20 (str_of_env (WHATSAPP_TOKEN example_config))
        = py_take 20 (str_of_env (WHATSAPP_TOKEN rotated_config))"
    by (simp add: example_config_def rotated_config_def env_set_def str_of_env_def
          is_continuation_def)
  with reporters_dependence [of example_config rotated_config]
  have "health_check example_config = health_check rotated_config
      \<and> debug_config example_config = debug_config rotated_config"
    by blast
  moreover have "WHATSAPP_TOKEN example_config \<noteq> WHATSAPP_TOKEN rotated_config
      \<and> GEMINI_API_KEY example_config \<noteq> GEMINI_API_KEY rotated_config"
    by (simp add: example_config_def rotated_config_def)
  ultimately show ?thesis by blast
qed

subsection \<open>The inference client\<close>

lemma starts_with_append: "starts_with p (p @ s)"
  by (induction p) simp_all

lemma is_substring_here: "is_substring p (p @ s)"
proof (cases "p @ s")
  case Nil
  then show ?thesis by simp
next
  case (Cons c cs)
  have "starts_with p (p @ s)" by (rule starts_with_append)
  with Cons show ?thesis by simp
qed

lemma is_substring_append: "is_substring p (a @ p @ s)"
  by (induction a) (simp_all add: is_substring_here)

lemma image_unavailable_code: "is_substring (str_of_nat code) (image_unavailable code)"
  unfolding image_unavailable_def
  using is_substring_append [of "str_of_nat code"
      "check_mark @ '' Image received! (Analysis temporarily unavailable: ''" "'')''"]
  by simp

lemma candidate_text_exc:
  "candidate_text result = Inl e \<Longrightarrow> e \<noteq> HTTPStatusError r"
  by (auto simp add: candidate_text_def result_bind_def py_getitem_def py_first_def
        split: sum.splits json.splits option.splits list.splits if_splits)

lemma response_json_exc:
  "response_json resp = Inl e \<Longrightarrow> e \<noteq> HTTPStatusError r"
  by (auto simp add: response_json_def split: option.splits)


lemma analyze_image_unconfigured:
  "\<not> env_set (GEMINI_API_KEY cfg) \<Longrightarrow>
   analyze_image rt cfg image_bytes t = (Inr (JStr image_unconfigured), t @ [Invoke (Analyze_image image_bytes)])"
  by (simp add: analyze_image_def io_defs)

lemma analyze_image_busy:
  assumes "env_set (GEMINI_API_KEY cfg)"
    and "respond rt (t @ [Invoke (Analyze_image image_bytes)]) InferenceImage (vision_request cfg image_bytes) = Inr r"
    and "resp_status_code r = 429"
  shows "fst (analyze_image rt cfg image_bytes t) = Inr (JStr image_busy)"
  using assms by (simp add: analyze_image_def io_defs)

lemma analyze_image_status:
  assumes "env_set (GEMINI_API_KEY cfg)"
    and "respond rt (t @ [Invoke (Analyze_image image_bytes)]) InferenceImage (vision_request cfg image_bytes) = Inr r"
    and "resp_status_code r \<noteq> 429"
    and "\<not> (200 \<le> resp_status_code r \<and> resp_status_code r < 300)"
  shows "fst (analyze_image rt cfg image_bytes t) = Inr (JStr (image_unavailable (resp_status_code r)))"
  using assms by (auto simp add: analyze_image_def io_defs raise_for_status_def)

lemma analyze_image_raised:
  assumes "env_set (GEMINI_API_KEY cfg)"
    and "respond rt (t @ [Invoke (Analyze_image image_bytes)]) InferenceImage (vision_request cfg image_bytes) = Inl e"
  shows "fst (analyze_image rt cfg image_bytes t) =
           Inr (JStr (case e of
                        HTTPStatusError r \<Rightarrow>
                          if resp_status_code r = 429 then image_busy else image_unavailable (resp_status_code r)
                      | _ \<Rightarrow> image_error))"
  using assms by (simp add: analyze_image_def io_defs split: exc.splits)

lemma analyze_image_body:
  assumes "env_set (GEMINI_API_KEY cfg)"
    and "respond rt (t @ [Invoke (Analyze_image image_bytes)]) InferenceImage (vision_request cfg image_bytes) = Inr r"
    and "200 \<le> resp_status_code r \<and> resp_status_code r < 300"
  shows "fst (analyze_image rt cfg image_bytes t) =
           (case result_bind (response_json r) candidate_text of
              Inl e \<Rightarrow> Inr (JStr image_error)
            | Inr v \<Rightarrow> Inr v)"
proof (cases "response_json r")
  case (Inl e)
  with assms response_json_exc [OF Inl] show ?thesis
    by (simp add: analyze_image_def io_defs raise_for_status_def result_bind_def split: exc.splits)
next
  case decoded: (Inr result)
  show ?thesis
  proof (cases "candidate_text result")
    case (Inl e)
    with assms decoded candidate_text_exc [OF Inl] show ?thesis
      by (simp add: analyze_image_def io_defs raise_for_status_def result_bind_def split: exc.splits)
  next
    case (Inr v)
    with assms decoded show ?thesis
      by (simp add: analyze_image_def io_defs raise_for_status_def result_bind_def)
  qed
qed

lemma answer_question_unconfigured:
  "\<not> env_set (GEMINI_API_KEY cfg) \<Longrightarrow>
   answer_question rt cfg question t = (Inr (JStr text_unconfigured), t @ [Invoke (Answer_question question)])"
  by (simp add: answer_question_def io_defs)

lemma answer_question_busy:
  assumes "env_set (GEMINI_API_KEY cfg)"
    and "respond rt (t @ [Invoke (Answer_question question)]) InferenceText (question_request cfg question) = Inr r"
    and "resp_status_code r = 429"
  shows "fst (answer_question rt cfg question t) = Inr (JStr text_busy)"
  using assms by (simp add: answer_question_def io_defs)

lemma answer_question_status:
  assumes "env_set (GEMINI_API_KEY cfg)"
    and "respond rt (t @ [Invoke (Answer_question question)]) InferenceText (question_request cfg question) = Inr r"
    and "resp_status_code r \<noteq> 429"
    and "\<not> (200 \<le> resp_status_code r \<and> resp_status_code r < 300)"
  shows "fst (answer_question rt cfg question t) = Inr (JStr (text_unavailable))"
  using assms by (auto simp add: answer_question_def io_defs raise_for_status_def)

lemma answer_question_raised:
  assumes "env_set (GEMINI_API_KEY cfg)"
    and "respond rt (t @ [Invoke (Answer_question question)]) InferenceText (question_request cfg question) = Inl e"
  shows "fst (answer_question rt cfg question t) =
           Inr (JStr (case e of
                        HTTPStatusError r \<Rightarrow>
                          if resp_status_code r = 429 then text_busy else text_unavailable
                      | _ \<Rightarrow> text_error))"
  using assms by (simp add: answer_question_def io_defs split: exc.splits)

lemma answer_question_body:
  assumes "env_set (GEMINI_API_KEY cfg)"
    and "respond rt (t @ [Invoke (Answer_question question)]) InferenceText (question_request cfg question) = Inr r"
    and "200 \<le> resp_status_code r \<and> resp_status_code r < 300"
  shows "fst (answer_question rt cfg question t) =
           (case result_bind (response_json r) candidate_text of
              Inl e \<Rightarrow> Inr (JStr text_error)
            | Inr v \<Rightarrow> Inr v)"
proof (cases "response_json r")
  case (Inl e)
  with assms response_json_exc [OF Inl] show ?thesis
    by (simp add: answer_question_def io_defs raise_for_status_def result_bind_def split: exc.splits)
next
  case decoded: (Inr result)
  show ?thesis
  proof (cases "candidate_text result")
    case (Inl e)
    with assms decoded candidate_text_exc [OF Inl] show ?thesis
      by (simp add: answer_question_def io_defs raise_for_status_def result_bind_def split: exc.splits)
  next
    case (Inr v)
    with assms decoded show ?thesis
      by (simp add: answer_question_def io_defs raise_for_status_def result_bind_def)
  qed
qed

text \<open>
  Claim C2, as stated: \<open>analyze_image\<close> and \<open>answer_question\<close> never raise, and on an
  HTTP error other than 429 they return a canned message embedding the status code.
  The last part fails for \<open>answer_question\<close>: on status 500 it returns a fixed
  apology in which the status code does not occur.
\<close>

theorem text_error_without_status_code:
  "fst (answer_question (failing_runtime InferenceText 500) example_config (JStr ''2+2?'') [])
     = Inr (JStr text_unavailable)
   \<and> \<not> is_substring (str_of_nat 500) text_unavailable"
  by (simp add: answer_question_def io_defs raise_for_status_def failing_runtime_def
        error_response_def example_config_def env_set_def text_unavailable_def
        warning_sign_def str_of_nat.simps digit_char_def)

text \<open>
  Claim C2, amended. Neither operation ever raises. Without an AI credential each
  returns its canned message and sends no request. With a credential, the result is
  decided by the outcome of the one request to the AI endpoint: on status 429 the
  canned busy message; on any other status outside 2xx, for \<open>analyze_image\<close> the
  canned message embedding the status code and for \<open>answer_question\<close> a fixed apology
  without it; on an exception of the client that is not a status error, and on a 2xx
  answer from which no candidate text can be read, the canned error message; on a 2xx
  answer with a candidate text, that text.
\<close>

theorem inference_degrades:
  fixes rt :: runtime and cfg :: config and image_bytes :: "byte list" and question :: json
    and t :: "event list"
  defines "image_outcome \<equiv> respond rt (t @ [Invoke (Analyze_image image_bytes)]) InferenceImage
                              (vision_request cfg image_bytes)"
    and "text_outcome \<equiv> respond rt (t @ [Invoke (Answer_question question)]) InferenceText
                              (question_request cfg question)"
    and "analysis \<equiv> fst (analyze_image rt cfg image_bytes t)"
    and "answer \<equiv> fst (answer_question rt cfg question t)"
  shows "(\<exists>v. analysis = Inr v) \<and> (\<exists>v. answer = Inr v)
    \<and> (\<not> env_set (GEMINI_API_KEY cfg) \<longrightarrow>
          analyze_image rt cfg image_bytes t
            = (Inr (JStr image_unconfigured), t @ [Invoke (Analyze_image image_bytes)])
        \<and> answer_question rt cfg question t
            = (Inr (JStr text_unconfigured), t @ [Invoke (Answer_question question)]))
    \<and> (env_set (GEMINI_API_KEY cfg) \<longrightarrow>
          (\<forall>r. image_outcome = Inr r \<and> resp_status_code r = 429
            \<longrightarrow> analysis = Inr (JStr image_busy))
        \<and> (\<forall>r. text_outcome = Inr r \<and> resp_status_code r = 429
            \<longrightarrow> answer = Inr (JStr text_busy))
        \<and> (\<forall>r. image_outcome = Inr r \<and> resp_status_code r \<noteq> 429
                \<and> \<not> (200 \<le> resp_status_code r \<and> resp_status_code r < 300)
            \<longrightarrow> analysis = Inr (JStr (image_unavailable (resp_status_code r)))
                \<and> is_substring (str_of_nat (resp_status_code r))
                     (image_unavailable (resp_status_code r)))
        \<and> (\<forall>r. text_outcome = Inr r \<and> resp_status_code r \<noteq> 429
                \<and> \<not> (200 \<le> resp_status_code r \<and> resp_status_code r < 300)
            \<longrightarrow> answer = Inr (JStr text_unavailable))
        \<and> (\<forall>e. image_outcome = Inl e \<and> (\<forall>r. e \<noteq> HTTPStatusError r)
            \<longrightarrow> analysis = Inr (JStr image_error))
        \<and> (\<forall>e. text_outcome = Inl e \<and> (\<forall>r. e \<noteq> HTTPStatusError r)
            \<longrightarrow> answer = Inr (JStr text_error))
        \<and> (\<forall>r e. image_outcome = Inr r
                \<and> 200 \<le> resp_status_code r \<and> resp_status_code r < 300
                \<and> result_bind (response_json r) candidate_text = Inl e
            \<longrightarrow> analysis = Inr (JStr image_error))
        \<and> (\<forall>r e. text_outcome = Inr r
                \<and> 200 \<le> resp_status_code r \<and> resp_status_code r < 300
                \<and> result_bind (response_json r) candidate_text = Inl e
            \<longrightarrow> answer = Inr (JStr text_error))
        \<and> (\<forall>r v. image_outcome = Inr r
                \<and> 200 \<le> resp_status_code r \<and> resp_status_code r < 300
                \<and> result_bind (response_json r) candidate_text = Inr v
            \<longrightarrow> analysis = Inr v)
        \<and> (\<forall>r v. text_outcome = Inr r
                \<and> 200 \<le> resp_status_code r \<and> resp_status_code r < 300
                \<and> result_bind (response_json r) candidate_text = Inr v
            \<longrightarrow> answer = Inr v))"
proof (intro conjI impI allI)
  show "\<exists>v. analysis = Inr v"
    unfolding analysis_def by (rule analyze_image_returns)
  show "\<exists>v. answer = Inr v"
    unfolding answer_def by (rule answer_question_returns)
next
  assume "\<not> env_set (GEMINI_API_KEY cfg)"
  then show "analyze_image rt cfg image_bytes t
            = (Inr (JStr image_unconfigured), t @ [Invoke (Analyze_image image_bytes)])"
    and "answer_question rt cfg question t
            = (Inr (JStr text_unconfigured), t @ [Invoke (Answer_question question)])"
    by (simp_all add: analyze_image_unconfigured answer_question_unconfigured)
next
  fix r assume "env_set (GEMINI_API_KEY cfg)" "image_outcome = Inr r \<and> resp_status_code r = 429"
  then show "analysis = Inr (JStr image_busy)"
    unfolding analysis_def image_outcome_def by (simp add: analyze_image_busy)
next
  fix r assume "env_set (GEMINI_API_KEY cfg)" "text_outcome = Inr r \<and> resp_status_code r = 429"
  then show "answer = Inr (JStr text_busy)"
    unfolding answer_def text_outcome_def by (simp add: answer_question_busy)
next
  fix r assume key: "env_set (GEMINI_API_KEY cfg)" and a:
    "image_outcome = Inr r \<and> resp_status_code r \<noteq> 429
       \<and> \<not> (200 \<le> resp_status_code r \<and> resp_status_code r < 300)"
  from a have outcome: "respond rt (t @ [Invoke (Analyze_image image_bytes)]) InferenceImage
                          (vision_request cfg image_bytes) = Inr r"
    unfolding image_outcome_def by blast
  from a have other: "resp_status_code r \<noteq> 429" by blast
  from a have failed: "\<not> (200 \<le> resp_status_code r \<and> resp_status_code r < 300)" by blast
  show "analysis = Inr (JStr (image_unavailable (resp_status_code r)))"
    unfolding analysis_def by (rule analyze_image_status [OF key outcome other failed])
  show "is_substring (str_of_nat (resp_status_code r)) (image_unavailable (resp_status_code r))"
    by (rule image_unavailable_code)
next
  fix r assume key: "env_set (GEMINI_API_KEY cfg)" and a:
    "text_outcome = Inr r \<and> resp_status_code r \<noteq> 429
       \<and> \<not> (200 \<le> resp_status_code r \<and> resp_status_code r < 300)"
  from a have outcome: "respond rt (t @ [Invoke (Answer_question question)]) InferenceText
                          (question_request cfg question) = Inr r"
    unfolding text_outcome_def by blast
  from a have other: "resp_status_code r \<noteq> 429" by blast
  from a have failed: "\<not> (200 \<le> resp_status_code r \<and> resp_status_code r < 300)" by blast
  show "answer = Inr (JStr text_unavailable)"
    unfolding answer_def by (rule answer_question_status [OF key outcome other failed])
next
  fix e assume "env_set (GEMINI_API_KEY cfg)"
    "image_outcome = Inl e \<and> (\<forall>r. e \<noteq> HTTPStatusError r)"
  then show "analysis = Inr (JStr image_error)"
    unfolding analysis_def image_outcome_def
    by (simp add: analyze_image_raised split: exc.splits)
next
  fix e assume "env_set (GEMINI_API_KEY cfg)"
    "text_outcome = Inl e \<and> (\<forall>r. e \<noteq> HTTPStatusError r)"
  then show "answer = Inr (JStr text_error)"
    unfolding answer_def text_outcome_def
    by (simp add: answer_question_raised split: exc.splits)
next
  fix r e assume "env_set (GEMINI_API_KEY cfg)"
    "image_outcome = Inr r \<and> 200 \<le> resp_status_code r \<and> resp_status_code r < 300
       \<and> result_bind (response_json r) candidate_text = Inl e"
  then show "analysis = Inr (JStr image_error)"
    unfolding analysis_def image_outcome_def by (simp add: analyze_image_body)
next
  fix r e assume "env_set (GEMINI_API_KEY cfg)"
    "text_outcome = Inr r \<and> 200 \<le> resp_status_code r \<and> resp_status_code r < 300
       \<and> result_bind (response_json r) candidate_text = Inl e"
  then show "answer = Inr (JStr text_error)"
    unfolding answer_def text_outcome_def by (simp add: answer_question_body)
next
  fix r v assume "env_set (GEMINI_API_KEY cfg)"
    "image_outcome = Inr r \<and> 200 \<le> resp_status_code r \<and> resp_status_code r < 300
       \<and> result_bind (response_json r) candidate_text = Inr v"
  then show "analysis = Inr v"
    unfolding analysis_def image_outcome_def by (simp add: analyze_image_body)
next
  fix r v assume "env_set (GEMINI_API_KEY cfg)"
    "text_outcome = Inr r \<and> 200 \<le> resp_status_code r \<and> resp_status_code r < 300
       \<and> result_bind (response_json r) candidate_text = Inr v"
  then show "answer = Inr v"
    unfolding answer_def text_outcome_def by (simp add: answer_question_body)
qed

theorem inference_degrades_witness:
  "analyze_image healthy_runtime unconfigured_config [0xFF, 0xD8, 0xFF] []
     = (Inr (JStr image_unconfigured), [Invoke (Analyze_image [0xFF, 0xD8, 0xFF])])
   \<and> fst (analyze_image (failing_runtime InferenceImage 503) example_config [0xFF, 0xD8, 0xFF] [])
       = Inr (JStr (image_unavailable 503))
   \<and> fst (answer_question (failing_runtime InferenceText 429) example_config (JStr ''2+2?'') [])
       = Inr (JStr text_busy)"
proof -
  have unset: "\<not> env_set (GEMINI_API_KEY unconfigured_config)"
    by (simp add: unconfigured_config_def env_set_def)
  have key_set: "env_set (GEMINI_API_KEY example_config)"
    by (simp add: example_config_def env_set_def)
  have image_world:
    "respond (failing_runtime InferenceImage 503) ([] @ [Invoke (Analyze_image [0xFF, 0xD8, 0xFF])])
         InferenceImage (vision_request example_config [0xFF, 0xD8, 0xFF]) = Inr (error_response 503)
       \<and> resp_status_code (error_response 503) \<noteq> 429
       \<and> \<not> (200 \<le> resp_status_code (error_response 503) \<and> resp_status_code (error_response 503) < 300)"
    by (simp add: failing_runtime_def error_response_def)
  have text_world:
    "respond (failing_runtime InferenceText 429) ([] @ [Invoke (Answer_question (JStr ''2+2?''))])
         InferenceText (question_request example_config (JStr ''2+2?'')) = Inr (error_response 429)
       \<and> resp_status_code (error_response 429) = 429"
    by (simp add: failing_runtime_def error_response_def)
  have code: "resp_status_code (error_response 503) = 503"
    by (simp add: error_response_def)
  note unconfigured = inference_degrades [of healthy_runtime unconfigured_config
      "[0xFF, 0xD8, 0xFF]" "[]" JNull, THEN conjunct2, THEN conjunct2, THEN conjunct1,
      THEN mp, OF unset, THEN conjunct1]
  note image_failing = inference_degrades [of "failing_runtime InferenceImage 503" example_config
      "[0xFF, 0xD8, 0xFF]" "[]" JNull, THEN conjunct2, THEN conjunct2, THEN conjunct2,
      THEN mp, OF key_set, THEN conjunct2, THEN conjunct2, THEN conjunct1,
      THEN spec, THEN mp, OF image_world, THEN conjunct1]
  note text_limited = inference_degrades [of "failing_runtime InferenceText 429" example_config
      "[]" "[]" "JStr ''2+2?''", THEN conjunct2, THEN conjunct2, THEN conjunct2,
      THEN mp, OF key_set, THEN conjunct2, THEN conjunct1,
      THEN spec, THEN mp, OF text_world]
  from unconfigured
  have "analyze_image healthy_runtime unconfigured_config [0xFF, 0xD8, 0xFF] []
     = (Inr (JStr image_unconfigured), [Invoke (Analyze_image [0xFF, 0xD8, 0xFF])])"
    by simp
  moreover from image_failing code
  have "fst (analyze_image (failing_runtime InferenceImage 503) example_config [0xFF, 0xD8, 0xFF] [])
       = Inr (JStr (image_unavailable 503))"
    by simp
  ultimately show ?thesis using text_limited by simp
qed

subsection \<open>The branches of the dispatcher\<close>

lemma text_except_run:
  assumes "send_whatsapp_message rt cfg from_number (JStr text_apology) (t @ [Log ERROR 350])
             = (apology, t')"
  shows "text_except rt cfg from_number e t
           = (Inr (), case apology of Inr u \<Rightarrow> t' | Inl e' \<Rightarrow> t' @ [Log ERROR 357])"
  using assms by (simp add: text_except_def io_defs split: sum.splits)

lemma image_except_run:
  assumes "send_whatsapp_message rt cfg from_number (JStr (image_apology (str_exc rt e)))
             (t @ [Log ERROR 329]) = (apology, t')"
  shows "image_except rt cfg from_number e t
           = (Inr (), case apology of Inr u \<Rightarrow> t' | Inl e' \<Rightarrow> t' @ [Log ERROR 336])"
  using assms by (simp add: image_except_def io_defs split: sum.splits)

lemma text_except_result: "fst (text_except rt cfg from_number e t) = Inr ()"
  by (cases "send_whatsapp_message rt cfg from_number (JStr text_apology) (t @ [Log ERROR 350])")
     (simp add: text_except_run)

lemma image_except_result: "fst (image_except rt cfg from_number e t) = Inr ()"
  by (cases "send_whatsapp_message rt cfg from_number (JStr (image_apology (str_exc rt e)))
               (t @ [Log ERROR 329])")
     (simp add: image_except_run)

lemma text_except_invocations:
  "invocations (snd (text_except rt cfg from_number e t))
     = invocations t @ [Send_message from_number (JStr text_apology)]"
proof (cases "send_whatsapp_message rt cfg from_number (JStr text_apology) (t @ [Log ERROR 350])")
  case (Pair apology t')
  with send_invocations [of rt cfg from_number "JStr text_apology" "t @ [Log ERROR 350]"]
  show ?thesis by (simp add: text_except_run trace_append split: sum.splits)
qed

lemma text_except_requests:
  "requests (snd (text_except rt cfg from_number e t))
     = requests t @ [(Send, send_request cfg from_number (JStr text_apology))]"
proof (cases "send_whatsapp_message rt cfg from_number (JStr text_apology) (t @ [Log ERROR 350])")
  case (Pair apology t')
  with send_requests [of rt cfg from_number "JStr text_apology" "t @ [Log ERROR 350]"]
  show ?thesis by (simp add: text_except_run trace_append split: sum.splits)
qed

lemma image_except_invocations:
  "invocations (snd (image_except rt cfg from_number e t))
     = invocations t @ [Send_message from_number (JStr (image_apology (str_exc rt e)))]"
proof (cases "send_whatsapp_message rt cfg from_number (JStr (image_apology (str_exc rt e)))
               (t @ [Log ERROR 329])")
  case (Pair apology t')
  with send_invocations [of rt cfg from_number "JStr (image_apology (str_exc rt e))"
         "t @ [Log ERROR 329]"]
  show ?thesis by (simp add: image_except_run trace_append split: sum.splits)
qed

lemma image_except_requests:
  "requests (snd (image_except rt cfg from_number e t))
     = requests t @ [(Send, send_request cfg from_number (JStr (image_apology (str_exc rt e))))]"
proof (cases "send_whatsapp_message rt cfg from_number (JStr (image_apology (str_exc rt e)))
               (t @ [Log ERROR 329])")
  case (Pair apology t')
  with send_requests [of rt cfg from_number "JStr (image_apology (str_exc rt e))"
         "t @ [Log ERROR 329]"]
  show ?thesis by (simp add: image_except_run trace_append split: sum.splits)
qed

lemma handle_text_run:
  assumes "py_getitem message ''text'' = Inr text_field"
    and "py_getitem text_field ''body'' = Inr question"
    and "answer_question rt cfg question (t @ [Log INFO 342]) = (Inr answer, t1)"
    and "send_whatsapp_message rt cfg from_number answer t1 = (sent, t2)"
  shows "handle_text rt cfg message from_number t
           = (case sent of
                Inr u \<Rightarrow> (Inr (), t2 @ [Log INFO 348])
              | Inl e \<Rightarrow> text_except rt cfg from_number e t2)"
  using assms by (simp add: handle_text_def io_defs split: sum.splits)

lemma image_fields:
  assumes "py_getitem message ''image'' = Inr image_field"
    and "image_media_id image_field = Inr media_id"
    and "py_get image_field ''caption'' (JStr []) = Inr caption"
  shows "handle_image rt cfg message from_number t
           = try_except
               (io_bind (download_whatsapp_media rt cfg media_id) (\<lambda>image_bytes.
                io_seq (log INFO 310)
               (io_bind (analyze_image rt cfg image_bytes) (\<lambda>analysis.
                io_bind (io_lift (py_slice analysis 100)) (\<lambda>preview.
                io_seq (log INFO 313)
               (try_except
                  (io_seq (send_whatsapp_message rt cfg from_number
                             (JStr (composed_reply rt caption analysis)))
                          (log INFO 321))
                  reply_except))))))
               (image_except rt cfg from_number) (t @ [Log INFO 305])"
proof -
  from assms(2) obtain image_id where
    "py_get image_field ''id'' JNull = Inr image_id"
    "(if truthy image_id then Inr image_id else py_get image_field ''media_id'' JNull) = Inr media_id"
    by (auto simp add: image_media_id_def result_bind_def split: sum.splits)
  with assms(1,3) show ?thesis
    by (auto simp add: handle_image_def composed_reply_def Let_def io_bind_def io_lift_def
          io_pure_def io_seq_def log_def split: if_splits)
qed

lemma handle_image_download_failed:
  assumes "py_getitem message ''image'' = Inr image_field"
    and "image_media_id image_field = Inr media_id"
    and "py_get image_field ''caption'' (JStr []) = Inr caption"
    and "download_whatsapp_media rt cfg media_id (t @ [Log INFO 305]) = (Inl e, t1)"
  shows "handle_image rt cfg message from_number t = image_except rt cfg from_number e t1"
  using assms(4) by (simp add: image_fields [OF assms(1-3)] try_except_def io_bind_def)

lemma handle_image_unsliceable:
  assumes "py_getitem message ''image'' = Inr image_field"
    and "image_media_id image_field = Inr media_id"
    and "py_get image_field ''caption'' (JStr []) = Inr caption"
    and "download_whatsapp_media rt cfg media_id (t @ [Log INFO 305]) = (Inr image_bytes, t1)"
    and "analyze_image rt cfg image_bytes (t1 @ [Log INFO 310]) = (Inr analysis, t2)"
    and "py_slice analysis 100 = Inl e"
  shows "handle_image rt cfg message from_number t = image_except rt cfg from_number e t2"
  using assms(4-6)
  by (simp add: image_fields [OF assms(1-3)] try_except_def io_bind_def io_seq_def log_def
        io_lift_def)

lemma handle_image_replied:
  assumes "py_getitem message ''image'' = Inr image_field"
    and "image_media_id image_field = Inr media_id"
    and "py_get image_field ''caption'' (JStr []) = Inr caption"
    and "download_whatsapp_media rt cfg media_id (t @ [Log INFO 305]) = (Inr image_bytes, t1)"
    and "analyze_image rt cfg image_bytes (t1 @ [Log INFO 310]) = (Inr analysis, t2)"
    and "py_slice analysis 100 = Inr preview"
    and "send_whatsapp_message rt cfg from_number (JStr (composed_reply rt caption analysis))
           (t2 @ [Log INFO 313]) = (sent, t3)"
  shows "handle_image rt cfg message from_number t
           = (case sent of
                Inr u \<Rightarrow> (Inr (), t3 @ [Log INFO 321])
              | Inl e \<Rightarrow>
                  (case e of
                     HTTPStatusError r \<Rightarrow>
                       (Inr (), t3 @ Log ERROR 323
                                  # (if is_substring ''131030'' (resp_text r)
                                     then [Log ERROR 326] else []))
                   | _ \<Rightarrow> image_except rt cfg from_number e t3))"
  using assms(4-7)
  by (simp add: image_fields [OF assms(1-3)] try_except_def io_bind_def io_seq_def log_def
        io_lift_def io_pure_def io_raise_def reply_except_def split: sum.splits exc.splits)

lemma healthy_answer:
  "answer_question healthy_runtime example_config question t
     = (Inr (JStr ''Four.''),
        t @ [Invoke (Answer_question question),
             Http InferenceText (question_request example_config question)])"
  by (simp add: answer_question_def io_defs raise_for_status_def response_json_def
        candidate_text_def result_bind_def py_getitem_def py_first_def healthy_runtime_def
        ok_response_def gemini_response_def example_config_def env_set_def)

lemma healthy_send:
  "send_whatsapp_message healthy_runtime cfg to body t
     = (Inr (JObj [(''messages'', JList [JObj [(''id'', JStr ''wamid.1'')]])]),
        t @ [Invoke (Send_message to body), Http Send (send_request cfg to body), Log INFO 222])"
  by (simp add: send_whatsapp_message_def io_defs response_json_def healthy_runtime_def
        ok_response_def)


subsection \<open>Text messages\<close>

text \<open>
  Claim C4, as stated: a payload whose first message has kind \<^verbatim>\<open>text\<close> leads to
  exactly one inference call and exactly one send call. It fails when the send of
  the answer fails: the \<^verbatim>\<open>except\<close> clause at line 349 then sends an apology, a
  second send call.
\<close>

theorem text_message_two_sends:
  "invocations (snd (handle_webhook (failing_runtime Send 500) example_config
      (post_request (message_payload text_message)) []))
     = [Answer_question (JStr ''2+2?''),
        Send_message (JStr ''15550001'') (JStr ''Four.''),
        Send_message (JStr ''15550001'') (JStr text_apology)]
   \<and> map fst (requests (snd (handle_webhook (failing_runtime Send 500) example_config
      (post_request (message_payload text_message)) [])))
     = [InferenceText, Send, Send]"
  by (simp add: handle_webhook_def webhook_body_def dispatch_message_def dispatch_kind_def
        handle_text_def text_except_def answer_question_def send_whatsapp_message_def
        webhook_except_def io_defs raise_for_status_def response_json_def candidate_text_def
        result_bind_def py_contains_def py_getitem_def py_first_def py_keys_def py_get_def
        truthy_def post_request_def message_payload_def webhook_payload_def text_message_def
        failing_runtime_def healthy_runtime_def error_response_def ok_response_def
        gemini_response_def example_config_def env_set_def)


text \<open>
  Claim C4, amended. When the first message of the payload carries a sender, has kind
  \<^verbatim>\<open>text\<close> and a text body, the run invokes the text inference once, on that body,
  and then the reply sender with exactly the value the inference returned. If that
  send succeeds there is no further call; if it fails, one more send call carries the
  fixed apology. The inference sends one request to the AI endpoint when the
  credential is set and none otherwise. The answer is \<^verbatim>\<open>{"status": "ok"}\<close>.
\<close>

theorem text_message_dispatch:
  assumes "request_json req = Inr body" and "first_message body = Some message"
    and "py_getitem message ''from'' = Inr from_number"
    and "py_get message ''type'' JNull = Inr (JStr ''text'')"
    and "py_getitem message ''text'' = Inr text_field"
    and "py_getitem text_field ''body'' = Inr question"
    and "answer_question rt cfg question
           (t @ [Log INFO 272, Log INFO 285, Log INFO 297, Log INFO 342]) = (Inr answer, t1)"
    and "send_whatsapp_message rt cfg from_number answer t1 = (sent, t2)"
  shows "fst (handle_webhook rt cfg req t) = Inr (status_response ''ok'')
       \<and> invocations (snd (handle_webhook rt cfg req t))
           = invocations t @ [Answer_question question, Send_message from_number answer]
               @ (case sent of Inr u \<Rightarrow> []
                  | Inl e \<Rightarrow> [Send_message from_number (JStr text_apology)])
       \<and> requests (snd (handle_webhook rt cfg req t))
           = requests t
               @ (if env_set (GEMINI_API_KEY cfg)
                  then [(InferenceText, question_request cfg question)] else [])
               @ [(Send, send_request cfg from_number answer)]
               @ (case sent of Inr u \<Rightarrow> []
                  | Inl e \<Rightarrow> [(Send, send_request cfg from_number (JStr text_apology))])"
proof -
  let ?t0 = "t @ [Log INFO 272, Log INFO 285, Log INFO 297]"
  have asked: "answer_question rt cfg question (?t0 @ [Log INFO 342]) = (Inr answer, t1)"
    using assms(7) by simp
  from answer_question_invocations [of rt cfg question "?t0 @ [Log INFO 342]"] asked
  have inv1: "invocations t1 = invocations t @ [Answer_question question]"
    by (simp add: trace_append)
  from answer_question_requests [of rt cfg question "?t0 @ [Log INFO 342]"] asked
  have req1: "requests t1 = requests t @ (if env_set (GEMINI_API_KEY cfg)
                  then [(InferenceText, question_request cfg question)] else [])"
    by (simp add: trace_append)
  from send_invocations [of rt cfg from_number answer t1] assms(8) inv1
  have inv2: "invocations t2
                = invocations t @ [Answer_question question, Send_message from_number answer]"
    by simp
  from send_requests [of rt cfg from_number answer t1] assms(8) req1
  have req2: "requests t2 = requests t
               @ (if env_set (GEMINI_API_KEY cfg)
                  then [(InferenceText, question_request cfg question)] else [])
               @ [(Send, send_request cfg from_number answer)]"
    by simp
  obtain r t' where branch: "handle_text rt cfg message from_number ?t0 = (r, t')"
    by (cases "handle_text rt cfg message from_number ?t0")
  have kind: "dispatch_kind rt cfg message from_number (JStr ''text'') ?t0 = (r, t')"
    using branch by (simp add: dispatch_kind_def)
  have run: "handle_text rt cfg message from_number ?t0
           = (case sent of
                Inr u \<Rightarrow> (Inr (), t2 @ [Log INFO 348])
              | Inl e \<Rightarrow> text_except rt cfg from_number e t2)"
    by (rule handle_text_run [OF assms(5,6) asked assms(8)])
  have returned: "r = Inr ()"
    using run branch text_except_result [of rt cfg from_number _ t2]
    by (cases sent) (auto dest: arg_cong [where f = fst])
  have final: "snd (handle_webhook rt cfg req t) = t'"
    and ok: "fst (handle_webhook rt cfg req t) = Inr (status_response ''ok'')"
    using handle_webhook_message [OF assms(1-4) kind] returned by simp_all
  have t': "t' = (case sent of Inr u \<Rightarrow> t2 @ [Log INFO 348]
                  | Inl e \<Rightarrow> snd (text_except rt cfg from_number e t2))"
    using run branch by (cases sent) (auto dest: arg_cong [where f = snd])
  show ?thesis
    using ok final t' inv2 req2
    by (cases sent)
       (simp_all add: trace_append text_except_invocations text_except_requests)
qed

theorem text_message_dispatch_witness:
  "fst (handle_webhook healthy_runtime example_config
          (post_request (message_payload text_message)) []) = Inr (status_response ''ok'')
   \<and> invocations (snd (handle_webhook healthy_runtime example_config
          (post_request (message_payload text_message)) []))
       = [Answer_question (JStr ''2+2?''), Send_message (JStr ''15550001'') (JStr ''Four.'')]"
proof -
  have "request_json (post_request (message_payload text_message))
          = Inr (message_payload text_message)"
    by (simp add: post_request_def)
  moreover have "py_getitem text_message ''from'' = Inr (JStr ''15550001'')"
    and "py_get text_message ''type'' JNull = Inr (JStr ''text'')"
    and "py_getitem text_message ''text'' = Inr (JObj [(''body'', JStr ''2+2?'')])"
    and "py_getitem (JObj [(''body'', JStr ''2+2?'')]) ''body'' = Inr (JStr ''2+2?'')"
    by (simp_all add: py_getitem_def py_get_def text_message_def)
  ultimately show ?thesis
    using text_message_dispatch [where req = "post_request (message_payload text_message)"
        and rt = healthy_runtime and cfg = example_config and t = "[]",
        OF _ first_message_payload _ _ _ _ healthy_answer healthy_send]
    by simp
qed

subsection \<open>Image messages\<close>

lemma healthy_download:
  "download_whatsapp_media healthy_runtime cfg media_id t
     = (Inr [0xFF, 0xD8, 0xFF],
        t @ [Invoke (Download_media media_id),
             Http MediaResolution (media_info_request healthy_runtime cfg media_id),
             Http MediaDownload (media_download_request cfg ''https://cdn.example/m1'')])"
  by (simp add: download_whatsapp_media_def io_defs raise_for_status_def response_json_def
        py_get_def healthy_runtime_def ok_response_def image_response_def)

lemma healthy_analysis:
  "analyze_image healthy_runtime example_config image_bytes t
     = (Inr (JStr ''A cat.''),
        t @ [Invoke (Analyze_image image_bytes),
             Http InferenceImage (vision_request example_config image_bytes)])"
  by (simp add: analyze_image_def io_defs raise_for_status_def response_json_def
        candidate_text_def result_bind_def py_getitem_def py_first_def healthy_runtime_def
        ok_response_def gemini_response_def example_config_def env_set_def)


text \<open>
  Claim C5, as stated: a payload whose first message has kind \<^verbatim>\<open>image\<close> leads to
  one media-resolution call, one media-download call, one image inference call and one
  send call. It fails when the media cannot be resolved: there is then no download
  call and no inference call, and the one send call carries an apology.
\<close>

theorem image_message_without_download:
  "invocations (snd (handle_webhook (failing_runtime MediaResolution 404) example_config
      (post_request (message_payload image_message)) []))
     = [Download_media (JStr ''m1''),
        Send_message (JStr ''15550001'')
          (JStr (image_apology (str_exc healthy_runtime (HTTPStatusError (error_response 404)))))]
   \<and> map fst (requests (snd (handle_webhook (failing_runtime MediaResolution 404) example_config
      (post_request (message_payload image_message)) [])))
     = [MediaResolution, Send]"
  by (simp add: handle_webhook_def webhook_body_def dispatch_message_def dispatch_kind_def
        handle_image_def image_except_def download_whatsapp_media_def
        send_whatsapp_message_def webhook_except_def io_defs raise_for_status_def
        response_json_def py_contains_def py_getitem_def py_first_def py_keys_def py_get_def
        truthy_def post_request_def message_payload_def webhook_payload_def image_message_def
        failing_runtime_def healthy_runtime_def error_response_def ok_response_def)


text \<open>
  Claim C5, amended. When the first message of the payload carries a sender, has kind
  \<^verbatim>\<open>image\<close> and an image object, and the media download succeeds (one
  media-resolution request, then one media-download request to the resolved URL), the
  run invokes the image inference once, on the downloaded bytes, and, when the analysis
  it returns can be sliced (a text, or a list), the reply sender once. The text sent is the analysis under the
  fixed heading, preceded by the caption line exactly when the caption is non-empty.
  That send is the only one when it succeeds or is rejected with an HTTP status. The
  answer is \<^verbatim>\<open>{"status": "ok"}\<close>.
\<close>

theorem image_message_dispatch:
  assumes "request_json req = Inr body" and "first_message body = Some message"
    and "py_getitem message ''from'' = Inr from_number"
    and "py_get message ''type'' JNull = Inr (JStr ''image'')"
    and "py_getitem message ''image'' = Inr image_field"
    and "image_media_id image_field = Inr media_id"
    and "py_get image_field ''caption'' (JStr []) = Inr caption"
    and "download_whatsapp_media rt cfg media_id
           (t @ [Log INFO 272, Log INFO 285, Log INFO 297, Log INFO 305]) = (Inr image_bytes, t1)"
    and "analyze_image rt cfg image_bytes (t1 @ [Log INFO 310]) = (Inr analysis, t2)"
    and "py_slice analysis 100 = Inr preview"
    and "send_whatsapp_message rt cfg from_number (JStr (composed_reply rt caption analysis))
           (t2 @ [Log INFO 313]) = (sent, t3)"
    and "sent = Inr sent_json \<or> sent = Inl (HTTPStatusError rejected)"
  shows "fst (handle_webhook rt cfg req t) = Inr (status_response ''ok'')
       \<and> invocations (snd (handle_webhook rt cfg req t))
           = invocations t @ [Download_media media_id, Analyze_image image_bytes,
                              Send_message from_number (JStr (composed_reply rt caption analysis))]
       \<and> (\<exists>media_url. requests (snd (handle_webhook rt cfg req t))
           = requests t
               @ [(MediaResolution, media_info_request rt cfg media_id),
                  (MediaDownload, media_download_request cfg media_url)]
               @ (if env_set (GEMINI_API_KEY cfg)
                  then [(InferenceImage, vision_request cfg image_bytes)] else [])
               @ [(Send, send_request cfg from_number
                           (JStr (composed_reply rt caption analysis)))])
       \<and> composed_reply rt caption analysis
           = (if truthy caption
              then memo @ '' Caption: _'' @ py_str rt caption @ ''_'' @ newline @ newline
              else [])
             @ framed_picture @ '' *Image Analysis*'' @ newline @ newline @ py_str rt analysis"
proof -
  let ?t0 = "t @ [Log INFO 272, Log INFO 285, Log INFO 297]"
  let ?reply = "JStr (composed_reply rt caption analysis)"
  have fetched: "download_whatsapp_media rt cfg media_id (?t0 @ [Log INFO 305])
                   = (Inr image_bytes, t1)"
    using assms(8) by simp
  from download_invocations [of rt cfg media_id "?t0 @ [Log INFO 305]"] fetched
  have inv1: "invocations t1 = invocations t @ [Download_media media_id]"
    by (simp add: trace_append)
  from download_success [OF fetched] obtain media_url where
    req1: "requests t1 = requests t @ [(MediaResolution, media_info_request rt cfg media_id),
                                       (MediaDownload, media_download_request cfg media_url)]"
    by (auto simp add: trace_append)
  from analyze_image_invocations [of rt cfg image_bytes "t1 @ [Log INFO 310]"] assms(9) inv1
  have inv2: "invocations t2
                = invocations t @ [Download_media media_id, Analyze_image image_bytes]"
    by (simp add: trace_append)
  from analyze_image_requests [of rt cfg image_bytes "t1 @ [Log INFO 310]"] assms(9) req1
  have req2: "requests t2 = requests t
               @ [(MediaResolution, media_info_request rt cfg media_id),
                  (MediaDownload, media_download_request cfg media_url)]
               @ (if env_set (GEMINI_API_KEY cfg)
                  then [(InferenceImage, vision_request cfg image_bytes)] else [])"
    by (simp add: trace_append)
  from send_invocations [of rt cfg from_number ?reply "t2 @ [Log INFO 313]"] assms(11) inv2
  have inv3: "invocations t3
                = invocations t @ [Download_media media_id, Analyze_image image_bytes,
                                   Send_message from_number ?reply]"
    by (simp add: trace_append)
  from send_requests [of rt cfg from_number ?reply "t2 @ [Log INFO 313]"] assms(11) req2
  have req3: "requests t3 = requests t
               @ [(MediaResolution, media_info_request rt cfg media_id),
                  (MediaDownload, media_download_request cfg media_url)]
               @ (if env_set (GEMINI_API_KEY cfg)
                  then [(InferenceImage, vision_request cfg image_bytes)] else [])
               @ [(Send, send_request cfg from_number ?reply)]"
    by (simp add: trace_append)
  have run: "handle_image rt cfg message from_number ?t0
           = (case sent of
                Inr u \<Rightarrow> (Inr (), t3 @ [Log INFO 321])
              | Inl e \<Rightarrow>
                  (case e of
                     HTTPStatusError r \<Rightarrow>
                       (Inr (), t3 @ Log ERROR 323
                                  # (if is_substring ''131030'' (resp_text r)
                                     then [Log ERROR 326] else []))
                   | _ \<Rightarrow> image_except rt cfg from_number e t3))"
    by (rule handle_image_replied [OF assms(5-7) fetched assms(9-11)])
  obtain logs where branch: "handle_image rt cfg message from_number ?t0 = (Inr (), t3 @ logs)"
    and logs: "invocations logs = []" "requests logs = []"
    using run assms(12) by (cases sent) auto
  have kind: "dispatch_kind rt cfg message from_number (JStr ''image'') ?t0 = (Inr (), t3 @ logs)"
    using branch by (simp add: dispatch_kind_def)
  have final: "snd (handle_webhook rt cfg req t) = t3 @ logs"
    and ok: "fst (handle_webhook rt cfg req t) = Inr (status_response ''ok'')"
    using handle_webhook_message [OF assms(1-4) kind] by simp_all
  have wording: "composed_reply rt caption analysis
           = (if truthy caption
              then memo @ '' Caption: _'' @ py_str rt caption @ ''_'' @ newline @ newline
              else [])
             @ framed_picture @ '' *Image Analysis*'' @ newline @ newline @ py_str rt analysis"
    by (simp add: composed_reply_def caption_prefix_def image_reply_def)
  show ?thesis
    using ok final logs inv3 req3 wording
    by (auto simp add: trace_append)
qed

theorem image_message_dispatch_witness:
  "fst (handle_webhook healthy_runtime example_config
          (post_request (message_payload image_message)) []) = Inr (status_response ''ok'')
   \<and> invocations (snd (handle_webhook healthy_runtime example_config
          (post_request (message_payload image_message)) []))
       = [Download_media (JStr ''m1''), Analyze_image [0xFF, 0xD8, 0xFF],
          Send_message (JStr ''15550001'')
            (JStr (caption_prefix ''my cat'' @ image_reply ''A cat.''))]"
proof -
  let ?image = "JObj [(''id'', JStr ''m1''), (''caption'', JStr ''my cat'')]"
  have "request_json (post_request (message_payload image_message))
          = Inr (message_payload image_message)"
    by (simp add: post_request_def)
  moreover have "py_getitem image_message ''from'' = Inr (JStr ''15550001'')"
    and "py_get image_message ''type'' JNull = Inr (JStr ''image'')"
    and "py_getitem image_message ''image'' = Inr ?image"
    and "image_media_id ?image = Inr (JStr ''m1'')"
    and "py_get ?image ''caption'' (JStr []) = Inr (JStr ''my cat'')"
    and "py_slice (JStr ''A cat.'') 100 = Inr (JStr (py_take 100 ''A cat.''))"
    by (simp_all add: py_getitem_def py_get_def py_slice_def image_message_def
          image_media_id_def result_bind_def truthy_def)
  moreover have "composed_reply healthy_runtime (JStr ''my cat'') (JStr ''A cat.'')
                   = caption_prefix ''my cat'' @ image_reply ''A cat.''"
    by (simp add: composed_reply_def truthy_def py_str_def)
  ultimately show ?thesis
    using image_message_dispatch [where req = "post_request (message_payload image_message)"
        and rt = healthy_runtime and cfg = example_config and t = "[]",
        OF _ first_message_payload _ _ _ _ _ healthy_download healthy_analysis _ healthy_send
           disjI1 [OF refl]]
    by simp
qed


subsection \<open>Failures at the dispatch boundary\<close>

lemma handle_webhook_branch:
  assumes "request_json req = Inr body" and "first_message body = Some message"
    and "py_getitem message ''from'' = Inr from_number"
    and "py_get message ''type'' JNull = Inr msg_type"
    and "dispatch_kind rt cfg message from_number msg_type
           (t @ [Log INFO 272, Log INFO 285, Log INFO 297]) = (Inr (), t')"
  shows "handle_webhook rt cfg req t = (Inr (status_response ''ok''), t')"
  using handle_webhook_message [OF assms] by simp


lemma rejecting_answer:
  "answer_question (failing_runtime Send code) example_config question t
     = (Inr (JStr ''Four.''),
        t @ [Invoke (Answer_question question),
             Http InferenceText (question_request example_config question)])"
  by (simp add: answer_question_def io_defs raise_for_status_def response_json_def
        candidate_text_def result_bind_def py_getitem_def py_first_def failing_runtime_def
        healthy_runtime_def ok_response_def gemini_response_def example_config_def env_set_def)

lemma rejecting_send:
  "send_whatsapp_message (failing_runtime Send 500) cfg to body t
     = (Inl (HTTPStatusError (error_response 500)),
        t @ [Invoke (Send_message to body), Http Send (send_request cfg to body), Log ERROR 219])"
  by (simp add: send_whatsapp_message_def io_defs raise_for_status_def failing_runtime_def
        error_response_def)


text \<open>
  Claim C6, as stated: every error raised during media download, inference or reply
  sending is caught, logged, and followed by an attempt to send an apology. It fails
  for the reply to an image: when the platform rejects that reply with an HTTP status,
  the error is logged (line 323) and no apology is sent.
\<close>

theorem rejected_image_reply_no_apology:
  "invocations (snd (handle_webhook (failing_runtime Send 400) example_config
      (post_request (message_payload image_message)) []))
     = [Download_media (JStr ''m1''), Analyze_image [0xFF, 0xD8, 0xFF],
        Send_message (JStr ''15550001'')
          (JStr (caption_prefix ''my cat'' @ image_reply ''A cat.''))]
   \<and> log_lines (snd (handle_webhook (failing_runtime Send 400) example_config
      (post_request (message_payload image_message)) []))
     = [(INFO, 272), (INFO, 285), (INFO, 297), (INFO, 305), (INFO, 310), (INFO, 313),
        (ERROR, 219), (ERROR, 323)]"
  by (simp add: handle_webhook_def webhook_body_def dispatch_message_def dispatch_kind_def
        handle_image_def image_except_def reply_except_def download_whatsapp_media_def
        analyze_image_def send_whatsapp_message_def webhook_except_def io_defs
        raise_for_status_def response_json_def candidate_text_def result_bind_def
        py_contains_def py_getitem_def py_first_def py_keys_def py_get_def py_slice_def
        py_str_def truthy_def post_request_def message_payload_def webhook_payload_def
        image_message_def failing_runtime_def healthy_runtime_def error_response_def
        ok_response_def image_response_def gemini_response_def example_config_def env_set_def
        Let_def)

text \<open>
  Claim C6, amended. For a message with a sender the handler always answers
  \<^verbatim>\<open>{"status": "ok"}\<close>, and:
  \<^item> text message, the send of the answer raises: the error is logged (line 350) and
    one send of the fixed apology is attempted;
  \<^item> image message, the media download raises: the error is logged (line 329) and one
    send of the apology naming the error is attempted;
  \<^item> image message, the send of the reply raises an HTTP status error: the error is
    logged (line 323, and line 326 for error code 131030) and nothing more is sent;
  \<^item> image message, the send of the reply raises any other error: logged (line 329),
    and one send of the apology is attempted.

  When the apology itself cannot be sent, this is logged (lines 357 and 336) and
  nothing else happens.
\<close>

theorem dispatch_failure_policy:
  assumes "request_json req = Inr body" and "first_message body = Some message"
    and "py_getitem message ''from'' = Inr from_number"
  shows
   "(py_get message ''type'' JNull = Inr (JStr ''text'')
     \<and> py_getitem message ''text'' = Inr text_field
     \<and> py_getitem text_field ''body'' = Inr question
     \<and> answer_question rt cfg question
          (t @ [Log INFO 272, Log INFO 285, Log INFO 297, Log INFO 342]) = (Inr answer, a1)
     \<and> send_whatsapp_message rt cfg from_number answer a1 = (Inl e1, a2)
     \<and> send_whatsapp_message rt cfg from_number (JStr text_apology) (a2 @ [Log ERROR 350])
          = (apology1, a3)
     \<longrightarrow> handle_webhook rt cfg req t
           = (Inr (status_response ''ok''),
              case apology1 of Inr u \<Rightarrow> a3 | Inl e' \<Rightarrow> a3 @ [Log ERROR 357])
         \<and> invocations a3 = invocations a2 @ [Send_message from_number (JStr text_apology)])
  \<and> (py_get message ''type'' JNull = Inr (JStr ''image'')
     \<and> py_getitem message ''image'' = Inr image_field
     \<and> image_media_id image_field = Inr media_id
     \<and> py_get image_field ''caption'' (JStr []) = Inr caption
     \<and> download_whatsapp_media rt cfg media_id
          (t @ [Log INFO 272, Log INFO 285, Log INFO 297, Log INFO 305]) = (Inl e2, b1)
     \<and> send_whatsapp_message rt cfg from_number (JStr (image_apology (str_exc rt e2)))
          (b1 @ [Log ERROR 329]) = (apology2, b2)
     \<longrightarrow> handle_webhook rt cfg req t
           = (Inr (status_response ''ok''),
              case apology2 of Inr u \<Rightarrow> b2 | Inl e' \<Rightarrow> b2 @ [Log ERROR 336])
         \<and> invocations b2
           = invocations b1 @ [Send_message from_number (JStr (image_apology (str_exc rt e2)))])
  \<and> (py_get message ''type'' JNull = Inr (JStr ''image'')
     \<and> py_getitem message ''image'' = Inr image_field
     \<and> image_media_id image_field = Inr media_id
     \<and> py_get image_field ''caption'' (JStr []) = Inr caption
     \<and> download_whatsapp_media rt cfg media_id
          (t @ [Log INFO 272, Log INFO 285, Log INFO 297, Log INFO 305]) = (Inr image_bytes, c1)
     \<and> analyze_image rt cfg image_bytes (c1 @ [Log INFO 310]) = (Inr analysis, c2)
     \<and> py_slice analysis 100 = Inr preview
     \<and> send_whatsapp_message rt cfg from_number (JStr (composed_reply rt caption analysis))
          (c2 @ [Log INFO 313]) = (Inl e3, c3)
     \<longrightarrow> (\<forall>rejected. e3 = HTTPStatusError rejected
            \<longrightarrow> handle_webhook rt cfg req t
                  = (Inr (status_response ''ok''),
                     c3 @ Log ERROR 323 # (if is_substring ''131030'' (resp_text rejected)
                                           then [Log ERROR 326] else [])))
         \<and> (\<forall>apology3 c4. (\<forall>rejected. e3 \<noteq> HTTPStatusError rejected)
              \<and> send_whatsapp_message rt cfg from_number (JStr (image_apology (str_exc rt e3)))
                   (c3 @ [Log ERROR 329]) = (apology3, c4)
            \<longrightarrow> handle_webhook rt cfg req t
                  = (Inr (status_response ''ok''),
                     case apology3 of Inr u \<Rightarrow> c4 | Inl e' \<Rightarrow> c4 @ [Log ERROR 336])
                \<and> invocations c4
                  = invocations c3
                      @ [Send_message from_number (JStr (image_apology (str_exc rt e3)))]))"
proof (intro conjI impI allI)
  let ?t0 = "t @ [Log INFO 272, Log INFO 285, Log INFO 297]"
  {
    assume a: "py_get message ''type'' JNull = Inr (JStr ''text'')
     \<and> py_getitem message ''text'' = Inr text_field
     \<and> py_getitem text_field ''body'' = Inr question
     \<and> answer_question rt cfg question
          (t @ [Log INFO 272, Log INFO 285, Log INFO 297, Log INFO 342]) = (Inr answer, a1)
     \<and> send_whatsapp_message rt cfg from_number answer a1 = (Inl e1, a2)
     \<and> send_whatsapp_message rt cfg from_number (JStr text_apology) (a2 @ [Log ERROR 350])
          = (apology1, a3)"
    then have asked: "answer_question rt cfg question (?t0 @ [Log INFO 342]) = (Inr answer, a1)"
      by simp
    from a have "handle_text rt cfg message from_number ?t0
                   = text_except rt cfg from_number e1 a2"
      using handle_text_run [OF _ _ asked, of message text_field from_number "Inl e1" a2]
      by simp
    also from a have "\<dots> = (Inr (), case apology1 of Inr u \<Rightarrow> a3 | Inl e' \<Rightarrow> a3 @ [Log ERROR 357])"
      by (simp add: text_except_run)
    finally have "dispatch_kind rt cfg message from_number (JStr ''text'') ?t0
                    = (Inr (), case apology1 of Inr u \<Rightarrow> a3 | Inl e' \<Rightarrow> a3 @ [Log ERROR 357])"
      by (simp add: dispatch_kind_def)
    with a show "handle_webhook rt cfg req t
           = (Inr (status_response ''ok''),
              case apology1 of Inr u \<Rightarrow> a3 | Inl e' \<Rightarrow> a3 @ [Log ERROR 357])"
      by (intro handle_webhook_branch [OF assms]) simp_all
    from a send_invocations [of rt cfg from_number "JStr text_apology" "a2 @ [Log ERROR 350]"]
    show "invocations a3 = invocations a2 @ [Send_message from_number (JStr text_apology)]"
      by (simp add: trace_append)
  }
  {
    assume a: "py_get message ''type'' JNull = Inr (JStr ''image'')
     \<and> py_getitem message ''image'' = Inr image_field
     \<and> image_media_id image_field = Inr media_id
     \<and> py_get image_field ''caption'' (JStr []) = Inr caption
     \<and> download_whatsapp_media rt cfg media_id
          (t @ [Log INFO 272, Log INFO 285, Log INFO 297, Log INFO 305]) = (Inl e2, b1)
     \<and> send_whatsapp_message rt cfg from_number (JStr (image_apology (str_exc rt e2)))
          (b1 @ [Log ERROR 329]) = (apology2, b2)"
    then have failed: "download_whatsapp_media rt cfg media_id (?t0 @ [Log INFO 305]) = (Inl e2, b1)"
      by simp
    from a have "handle_image rt cfg message from_number ?t0
                   = image_except rt cfg from_number e2 b1"
      using handle_image_download_failed [OF _ _ _ failed, of message image_field caption from_number]
      by simp
    also from a have "\<dots> = (Inr (), case apology2 of Inr u \<Rightarrow> b2 | Inl e' \<Rightarrow> b2 @ [Log ERROR 336])"
      by (simp add: image_except_run)
    finally have "dispatch_kind rt cfg message from_number (JStr ''image'') ?t0
                    = (Inr (), case apology2 of Inr u \<Rightarrow> b2 | Inl e' \<Rightarrow> b2 @ [Log ERROR 336])"
      by (simp add: dispatch_kind_def)
    with a show "handle_webhook rt cfg req t
           = (Inr (status_response ''ok''),
              case apology2 of Inr u \<Rightarrow> b2 | Inl e' \<Rightarrow> b2 @ [Log ERROR 336])"
      by (intro handle_webhook_branch [OF assms]) simp_all
    from a send_invocations [of rt cfg from_number "JStr (image_apology (str_exc rt e2))"
                               "b1 @ [Log ERROR 329]"]
    show "invocations b2
           = invocations b1 @ [Send_message from_number (JStr (image_apology (str_exc rt e2)))]"
      by (simp add: trace_append)
  }
  {
    fix rejected
    assume a: "py_get message ''type'' JNull = Inr (JStr ''image'')
     \<and> py_getitem message ''image'' = Inr image_field
     \<and> image_media_id image_field = Inr media_id
     \<and> py_get image_field ''caption'' (JStr []) = Inr caption
     \<and> download_whatsapp_media rt cfg media_id
          (t @ [Log INFO 272, Log INFO 285, Log INFO 297, Log INFO 305]) = (Inr image_bytes, c1)
     \<and> analyze_image rt cfg image_bytes (c1 @ [Log INFO 310]) = (Inr analysis, c2)
     \<and> py_slice analysis 100 = Inr preview
     \<and> send_whatsapp_message rt cfg from_number (JStr (composed_reply rt caption analysis))
          (c2 @ [Log INFO 313]) = (Inl e3, c3)"
      and status: "e3 = HTTPStatusError rejected"
    then have fetched: "download_whatsapp_media rt cfg media_id (?t0 @ [Log INFO 305])
                          = (Inr image_bytes, c1)"
      by simp
    from a status have "handle_image rt cfg message from_number ?t0
        = (Inr (), c3 @ Log ERROR 323 # (if is_substring ''131030'' (resp_text rejected)
                                         then [Log ERROR 326] else []))"
      using handle_image_replied [OF _ _ _ fetched, of message image_field caption analysis c2
              preview from_number "Inl e3" c3]
      by simp
    then have "dispatch_kind rt cfg message from_number (JStr ''image'') ?t0
        = (Inr (), c3 @ Log ERROR 323 # (if is_substring ''131030'' (resp_text rejected)
                                         then [Log ERROR 326] else []))"
      by (simp add: dispatch_kind_def)
    with a show "handle_webhook rt cfg req t
                  = (Inr (status_response ''ok''),
                     c3 @ Log ERROR 323 # (if is_substring ''131030'' (resp_text rejected)
                                           then [Log ERROR 326] else []))"
      by (intro handle_webhook_branch [OF assms]) simp_all
  }
  {
    fix apology3 c4
    assume a: "py_get message ''type'' JNull = Inr (JStr ''image'')
     \<and> py_getitem message ''image'' = Inr image_field
     \<and> image_media_id image_field = Inr media_id
     \<and> py_get image_field ''caption'' (JStr []) = Inr caption
     \<and> download_whatsapp_media rt cfg media_id
          (t @ [Log INFO 272, Log INFO 285, Log INFO 297, Log INFO 305]) = (Inr image_bytes, c1)
     \<and> analyze_image rt cfg image_bytes (c1 @ [Log INFO 310]) = (Inr analysis, c2)
     \<and> py_slice analysis 100 = Inr preview
     \<and> send_whatsapp_message rt cfg from_number (JStr (composed_reply rt caption analysis))
          (c2 @ [Log INFO 313]) = (Inl e3, c3)"
      and b: "(\<forall>rejected. e3 \<noteq> HTTPStatusError rejected)
              \<and> send_whatsapp_message rt cfg from_number (JStr (image_apology (str_exc rt e3)))
                   (c3 @ [Log ERROR 329]) = (apology3, c4)"
    then have fetched: "download_whatsapp_media rt cfg media_id (?t0 @ [Log INFO 305])
                          = (Inr image_bytes, c1)"
      by simp
    from a b have "handle_image rt cfg message from_number ?t0
                     = image_except rt cfg from_number e3 c3"
      using handle_image_replied [OF _ _ _ fetched, of message image_field caption analysis c2
              preview from_number "Inl e3" c3]
      by (simp split: exc.splits)
    also from b have "\<dots> = (Inr (), case apology3 of Inr u \<Rightarrow> c4 | Inl e' \<Rightarrow> c4 @ [Log ERROR 336])"
      by (simp add: image_except_run)
    finally have "dispatch_kind rt cfg message from_number (JStr ''image'') ?t0
                    = (Inr (), case apology3 of Inr u \<Rightarrow> c4 | Inl e' \<Rightarrow> c4 @ [Log ERROR 336])"
      by (simp add: dispatch_kind_def)
    with a show "handle_webhook rt cfg req t
                  = (Inr (status_response ''ok''),
                     case apology3 of Inr u \<Rightarrow> c4 | Inl e' \<Rightarrow> c4 @ [Log ERROR 336])"
      by (intro handle_webhook_branch [OF assms]) simp_all
    from b send_invocations [of rt cfg from_number "JStr (image_apology (str_exc rt e3))"
                               "c3 @ [Log ERROR 329]"]
    show "invocations c4
           = invocations c3 @ [Send_message from_number (JStr (image_apology (str_exc rt e3)))]"
      by (simp add: trace_append)
  }
qed

theorem dispatch_failure_policy_witness:
  "fst (handle_webhook (failing_runtime Send 500) example_config
          (post_request (message_payload text_message)) []) = Inr (status_response ''ok'')
   \<and> invocations (snd (handle_webhook (failing_runtime Send 500) example_config
          (post_request (message_payload text_message)) []))
       = [Answer_question (JStr ''2+2?''),
          Send_message (JStr ''15550001'') (JStr ''Four.''),
          Send_message (JStr ''15550001'') (JStr text_apology)]
   \<and> log_lines (snd (handle_webhook (failing_runtime Send 500) example_config
          (post_request (message_payload text_message)) []))
       = [(INFO, 272), (INFO, 285), (INFO, 297), (INFO, 342), (ERROR, 219), (ERROR, 350),
          (ERROR, 219), (ERROR, 357)]"
proof -
  let ?rt = "failing_runtime Send 500"
  let ?req = "post_request (message_payload text_message)"
  have decoded: "request_json ?req = Inr (message_payload text_message)"
    by (simp add: post_request_def)
  have sender: "py_getitem text_message ''from'' = Inr (JStr ''15550001'')"
    by (simp add: py_getitem_def text_message_def)
  have scenario:
    "py_get text_message ''type'' JNull = Inr (JStr ''text'')
     \<and> py_getitem text_message ''text'' = Inr (JObj [(''body'', JStr ''2+2?'')])
     \<and> py_getitem (JObj [(''body'', JStr ''2+2?'')]) ''body'' = Inr (JStr ''2+2?'')
     \<and> answer_question ?rt example_config (JStr ''2+2?'')
          ([] @ [Log INFO 272, Log INFO 285, Log INFO 297, Log INFO 342])
         = (Inr (JStr ''Four.''),
            ([] @ [Log INFO 272, Log INFO 285, Log INFO 297, Log INFO 342])
              @ [Invoke (Answer_question (JStr ''2+2?'')),
                 Http InferenceText (question_request example_config (JStr ''2+2?''))])
     \<and> send_whatsapp_message ?rt example_config (JStr ''15550001'') (JStr ''Four.'')
          (([] @ [Log INFO 272, Log INFO 285, Log INFO 297, Log INFO 342])
              @ [Invoke (Answer_question (JStr ''2+2?'')),
                 Http InferenceText (question_request example_config (JStr ''2+2?''))])
         = (Inl (HTTPStatusError (error_response 500)),
            (([] @ [Log INFO 272, Log INFO 285, Log INFO 297, Log INFO 342])
              @ [Invoke (Answer_question (JStr ''2+2?'')),
                 Http InferenceText (question_request example_config (JStr ''2+2?''))])
              @ [Invoke (Send_message (JStr ''15550001'') (JStr ''Four.'')),
                 Http Send (send_request example_config (JStr ''15550001'') (JStr ''Four.'')),
                 Log ERROR 219])
     \<and> send_whatsapp_message ?rt example_config (JStr ''15550001'') (JStr text_apology)
          (((([] @ [Log INFO 272, Log INFO 285, Log INFO 297, Log INFO 342])
              @ [Invoke (Answer_question (JStr ''2+2?'')),
                 Http InferenceText (question_request example_config (JStr ''2+2?''))])
              @ [Invoke (Send_message (JStr ''15550001'') (JStr ''Four.'')),
                 Http Send (send_request example_config (JStr ''15550001'') (JStr ''Four.'')),
                 Log ERROR 219]) @ [Log ERROR 350])
         = (Inl (HTTPStatusError (error_response 500)),
            ((((([] @ [Log INFO 272, Log INFO 285, Log INFO 297, Log INFO 342])
              @ [Invoke (Answer_question (JStr ''2+2?'')),
                 Http InferenceText (question_request example_config (JStr ''2+2?''))])
              @ [Invoke (Send_message (JStr ''15550001'') (JStr ''Four.'')),
                 Http Send (send_request example_config (JStr ''15550001'') (JStr ''Four.'')),
                 Log ERROR 219]) @ [Log ERROR 350])
              @ [Invoke (Send_message (JStr ''15550001'') (JStr text_apology)),
                 Http Send (send_request example_config (JStr ''15550001'') (JStr text_apology)),
                 Log ERROR 219]))"
    unfolding rejecting_answer rejecting_send
    by (simp add: py_getitem_def py_get_def text_message_def)
  note run = dispatch_failure_policy [OF decoded first_message_payload sender,
      THEN conjunct1, THEN mp, OF scenario, THEN conjunct1]
  show ?thesis
    unfolding run by simp
qed

end
